theory Spec2Isabelle
  imports Main
begin

section \<open>Python values and exceptions\<close>

text \<open>
  The exceptions the class and its libraries raise. Every constructor is a subclass of
  Python's \<open>Exception\<close>, so \<open>except Exception\<close> catches each of them; only
  \<open>JSONDecodeError\<close> is caught by \<open>except json.JSONDecodeError\<close>. The argument is
  the message, which \<open>str(e)\<close> returns.
\<close>

datatype error =
    ValueError string
  | RuntimeError string
  | IndexError string
  | TypeError string
  | JSONDecodeError string
  | OtherException string

fun str_of :: "error \<Rightarrow> string" where
  "str_of (ValueError m) = m"
| "str_of (RuntimeError m) = m"
| "str_of (IndexError m) = m"
| "str_of (TypeError m) = m"
| "str_of (JSONDecodeError m) = m"
| "str_of (OtherException m) = m"

text \<open>
  Python objects as far as the class handles them: what \<open>json.loads\<close> can return, the
  values of an output structure, and \<open>PyOther\<close> for any other object (a class such as
  \<open>str\<close>, say). A dict keeps its items in insertion order.
\<close>

datatype py =
    PyNone
  | PyBool bool
  | PyInt int
  | PyStr string
  | PyList "py list"
  | PyDict "(string \<times> py) list"
  | PyOther string

text \<open>\<open>answer_question\<close> returns \<open>Union[str, Dict[str, Any]]\<close>.\<close>

datatype answer = Text string | Structured py

text \<open>\<open>get_embedding\<close> takes \<open>Union[str, List[str]]\<close>.\<close>

datatype text_arg = Str string | StrList "string list"

section \<open>The collaborators\<close>

text \<open>
  The tokenizer object held in \<open>self.tokenizer\<close>. Token ids are naturals.
  \<^item> \<open>encode s\<close> is \<open>tokenizer.encode(s)\<close>;
  \<^item> \<open>tokenizer_call s\<close> is
    \<open>tokenizer(s, return_tensors="pt", truncation=True, max_length=512).to(device)\<close>,
    the input ids of the one text;
  \<^item> \<open>tokenizer_batch ss\<close> is
    \<open>tokenizer(ss, return_tensors="pt", padding=True, truncation=True, max_length=512).to(device)\<close>;
  \<^item> \<open>decode ids\<close> is \<open>tokenizer.decode(ids, skip_special_tokens=True)\<close>.
\<close>

record tokenizer =
  encode :: "string \<Rightarrow> nat list"
  tokenizer_call :: "string \<Rightarrow> error + nat list"
  tokenizer_batch :: "string list \<Rightarrow> error + nat list list"
  decode :: "nat list \<Rightarrow> error + string"

text \<open>
  The model object held in \<open>self.model\<close>, with embeddings of an abstract type \<open>'e\<close>.
  \<^item> \<open>generate ids n\<close> is \<open>model.generate(**inputs, max_length=n)[0]\<close> under
    \<open>torch.no_grad()\<close>;
  \<^item> \<open>encoder b\<close> is \<open>model.encoder(**inputs).last_hidden_state.mean(dim=1).cpu()\<close>,
    one row per text, and \<open>forward b\<close> the same for \<open>model(**inputs)\<close>;
  \<^item> \<open>max_position_embeddings\<close> is the entry of \<open>model.config.__dict__\<close>, if any;
  \<^item> \<open>hidden_size\<close> is \<open>model.config.hidden_size\<close>.
\<close>

record 'e model =
  generate :: "nat list \<Rightarrow> int \<Rightarrow> error + nat list"
  encoder :: "nat list list \<Rightarrow> error + 'e list"
  forward :: "nat list list \<Rightarrow> error + 'e list"
  max_position_embeddings :: "int option"
  hidden_size :: int

text \<open>
  The libraries: the loaders of transformers, nltk's sentence splitter, the cosine of two
  embedding vectors with scores in a linear order \<open>'s\<close> (torch computes it on floats),
  and the json module.
\<close>

text \<open>
  \<open>sent_tokenize\<close> and \<open>encode\<close> are taken to return: \<open>split_document\<close> calls them
  before \<open>add_rag_data\<close> changes anything, and no property below is about their faults.
  Every other call into a library may raise.
\<close>

record ('e, 's) library =
  AutoTokenizer_from_pretrained :: "string \<Rightarrow> error + tokenizer"
  AutoModelForSeq2SeqLM_from_pretrained :: "string \<Rightarrow> error + 'e model"
  AutoModelForCausalLM_from_pretrained :: "string \<Rightarrow> error + 'e model"
  sent_tokenize :: "string \<Rightarrow> string list"
  cosine :: "'e \<Rightarrow> 'e \<Rightarrow> 's"
  json_dumps :: "(string \<times> py) list \<Rightarrow> error + string"
  json_loads :: "string \<Rightarrow> error + py"

section \<open>The class LLMQuestionAnswerer\<close>

record 'e LLMQuestionAnswerer =
  model_name :: string
  model_type :: string
  quest_ans_tokens_margin :: int
  tokenizer :: tokenizer
  model :: "'e model"
  rag_data :: "string list"
  rag_embeddings :: "'e list option"
  embedding_size :: int
  rag_k_nearest_neighbors :: int

text \<open>
  \<open>__init__\<close>: the tokenizer is loaded first, then the model of the requested type; any
  other type raises \<open>ValueError\<close>. A loader that raises ends the construction. Moving
  the model to the device is taken as part of its loader.
\<close>

definition init ::
  "('e, 's) library \<Rightarrow> string \<Rightarrow> string \<Rightarrow> int \<Rightarrow> error + 'e LLMQuestionAnswerer" where
  "init lib name type margin =
     (case AutoTokenizer_from_pretrained lib name of
        Inl e \<Rightarrow> Inl e
      | Inr tk \<Rightarrow>
          (case (if type = ''seq2seq'' then AutoModelForSeq2SeqLM_from_pretrained lib name
                 else if type = ''causal'' then AutoModelForCausalLM_from_pretrained lib name
                 else Inl (ValueError ''Unsupported model type. Use 'seq2seq' or 'causal'.''))
           of
             Inl e \<Rightarrow> Inl e
           | Inr m \<Rightarrow>
               Inr \<lparr> model_name = name, model_type = type, quest_ans_tokens_margin = margin,
                     tokenizer = tk, model = m, rag_data = [], rag_embeddings = None,
                     embedding_size = hidden_size m, rag_k_nearest_neighbors = 3 \<rparr>))"

definition max_chunk_size :: "'e LLMQuestionAnswerer \<Rightarrow> int" where
  "max_chunk_size self =
     (case max_position_embeddings (model self) of None \<Rightarrow> 500 | Some n \<Rightarrow> n)
       - quest_ans_tokens_margin self"

text \<open>\<open>sep.join(xs)\<close>.\<close>

fun join :: "string \<Rightarrow> string list \<Rightarrow> string" where
  "join sep [] = []"
| "join sep [x] = x"
| "join sep (x # y # ys) = x @ sep @ join sep (y # ys)"

text \<open>
  The loop of \<open>split_document\<close> over the remaining sentences, with the variables
  \<open>chunks\<close>, \<open>current_chunk\<close> and \<open>current_length\<close>; at the end of the sentences the
  last chunk is flushed.
\<close>

fun split_loop ::
  "'e LLMQuestionAnswerer \<Rightarrow> string list \<Rightarrow> string list \<Rightarrow> string list \<Rightarrow> int \<Rightarrow> string list"
  where
  "split_loop self [] chunks current_chunk current_length =
     (if current_chunk \<noteq> [] then chunks @ [join '' '' current_chunk] else chunks)"
| "split_loop self (sentence # sentences) chunks current_chunk current_length =
     (let sentence_tokens = encode (tokenizer self) sentence;
          sentence_length = int (length sentence_tokens)
      in if current_length + sentence_length > max_chunk_size self
         then split_loop self sentences
                (if current_chunk \<noteq> [] then chunks @ [join '' '' current_chunk] else chunks)
                [sentence] sentence_length
         else split_loop self sentences chunks (current_chunk @ [sentence])
                (current_length + sentence_length))"

definition split_document ::
  "('e, 's) library \<Rightarrow> 'e LLMQuestionAnswerer \<Rightarrow> string \<Rightarrow> string list" where
  "split_document lib self document = split_loop self (sent_tokenize lib document) [] [] 0"

text \<open>
  The generation call under the decoding convention of the object, as written in
  \<open>summarize_chunk\<close>, \<open>answer_question\<close> and \<open>generate_structured_output\<close>:
  \<open>inputs['input_ids'].shape[1]\<close> is the number of input tokens.
\<close>

definition generate_ids ::
  "'e LLMQuestionAnswerer \<Rightarrow> nat list \<Rightarrow> int \<Rightarrow> error + nat list" where
  "generate_ids self inputs max_length =
     (if model_type self = ''seq2seq'' then generate (model self) inputs max_length
      else generate (model self) inputs (int (length inputs) + max_length))"

text \<open>
  Tokenize, generate and decode: the three statements that \<open>summarize_chunk\<close> runs bare
  and the two answer paths run inside \<open>try\<close>. The first fault ends it.
\<close>

definition generate_text ::
  "'e LLMQuestionAnswerer \<Rightarrow> string \<Rightarrow> int \<Rightarrow> error + string" where
  "generate_text self full_prompt max_length =
     (case tokenizer_call (tokenizer self) full_prompt of
        Inl e \<Rightarrow> Inl e
      | Inr inputs \<Rightarrow>
          (case generate_ids self inputs max_length of
             Inl e \<Rightarrow> Inl e
           | Inr outputs \<Rightarrow> decode (tokenizer self) outputs))"

definition summary_prompt :: string where
  "summary_prompt =
     ''Can you provide a comprehensive summary of the given text? '' @ replicate 26 (CHR '' '') @
     ''The summary should cover all the key points and main ideas presented in the original text, '' @ replicate 26 (CHR '' '') @
     ''while also condensing the information into a concise and easy-to-understand format. '' @ replicate 26 (CHR '' '') @
     ''Please ensure that the summary includes relevant details and examples that support the main ideas, '' @ replicate 26 (CHR '' '') @
     ''while avoiding any unnecessary information or repetition:''"

definition summarize_chunk ::
  "'e LLMQuestionAnswerer \<Rightarrow> string \<Rightarrow> int \<Rightarrow> error + string" where
  "summarize_chunk self chunk max_length = generate_text self (summary_prompt @ chunk) max_length"

definition get_embedding ::
  "'e LLMQuestionAnswerer \<Rightarrow> text_arg \<Rightarrow> error + 'e list" where
  "get_embedding self text =
     (let texts = (case text of Str t \<Rightarrow> [t] | StrList ts \<Rightarrow> ts) in
      case tokenizer_batch (tokenizer self) texts of
        Inl e \<Rightarrow> Inl e
      | Inr inputs \<Rightarrow>
          (if model_type self = ''seq2seq'' then encoder (model self) inputs
           else forward (model self) inputs))"

text \<open>
  The list comprehension \<open>[self.summarize_chunk(chunk) for chunk in all_chunks]\<close>, with
  the default \<open>max_length = 100\<close>: the first fault ends it.
\<close>

fun summarize_all :: "'e LLMQuestionAnswerer \<Rightarrow> string list \<Rightarrow> error + string list" where
  "summarize_all self [] = Inr []"
| "summarize_all self (chunk # chunks) =
     (case summarize_chunk self chunk 100 of
        Inl e \<Rightarrow> Inl e
      | Inr s \<Rightarrow>
          (case summarize_all self chunks of
             Inl e \<Rightarrow> Inl e
           | Inr ss \<Rightarrow> Inr (s # ss)))"

text \<open>
  The last statement of \<open>add_rag_data\<close> that changes the object: the first embeddings
  are stored as they are, later ones are appended by \<open>torch.cat\<close> along the rows.
\<close>

definition store_embeddings :: "'e LLMQuestionAnswerer \<Rightarrow> 'e list \<Rightarrow> 'e LLMQuestionAnswerer" where
  "store_embeddings self new_embeddings =
     self\<lparr>rag_embeddings :=
       (case rag_embeddings self of
          None \<Rightarrow> Some new_embeddings
        | Some old \<Rightarrow> Some (old @ new_embeddings))\<rparr>"

text \<open>
  \<open>add_rag_data\<close> mutates the object and may raise: the result is the exception raised,
  if any, and the object as the call leaves it. In both branches the texts are appended
  to \<open>rag_data\<close> before \<open>get_embedding\<close> is called, as in the source. The closing
  \<open>print\<close> of the counts is left out.
\<close>

definition add_rag_data ::
  "('e, 's) library \<Rightarrow> 'e LLMQuestionAnswerer \<Rightarrow> string list \<Rightarrow> bool
     \<Rightarrow> error option \<times> 'e LLMQuestionAnswerer" where
  "add_rag_data lib self documents use_summaries =
     (let all_chunks = concat (map (split_document lib self) documents) in
      if use_summaries then
        (case summarize_all self all_chunks of
           Inl e \<Rightarrow> (Some e, self)
         | Inr summaries \<Rightarrow>
             (let self1 = self\<lparr>rag_data := rag_data self @ summaries\<rparr> in
              case get_embedding self1 (StrList summaries) of
                Inl e \<Rightarrow> (Some e, self1)
              | Inr new_embeddings \<Rightarrow> (None, store_embeddings self1 new_embeddings)))
      else
        (let self1 = self\<lparr>rag_data := rag_data self @ all_chunks\<rparr> in
         case get_embedding self1 (StrList all_chunks) of
           Inl e \<Rightarrow> (Some e, self1)
         | Inr new_embeddings \<Rightarrow> (None, store_embeddings self1 new_embeddings)))"

text \<open>
  A sequence of \<open>add_rag_data\<close> calls on one object, each with its documents and its
  \<open>use_summaries\<close>. A call that raises leaves the object as it is then, and the caller
  goes on with the next call.
\<close>

fun add_calls ::
  "('e, 's) library \<Rightarrow> 'e LLMQuestionAnswerer \<Rightarrow> (string list \<times> bool) list
     \<Rightarrow> 'e LLMQuestionAnswerer" where
  "add_calls lib self [] = self"
| "add_calls lib self ((documents, use_summaries) # calls) =
     add_calls lib (snd (add_rag_data lib self documents use_summaries)) calls"

text \<open>
  \<open>torch.cosine_similarity(x1, x2)\<close> on two matrices, along dimension 1: the rows are
  paired, and a matrix of one row is broadcast against the other; row counts that differ
  otherwise raise. The message is shortened: torch adds the two sizes and the dimension.
  A question of one row never takes this branch.
\<close>

definition cosine_similarity :: "('e \<Rightarrow> 'e \<Rightarrow> 's) \<Rightarrow> 'e list \<Rightarrow> 'e list \<Rightarrow> error + 's list" where
  "cosine_similarity cos x1 x2 =
     (if length x1 = length x2 then Inr (map2 cos x1 x2)
      else if length x1 = 1 then Inr (map (cos (hd x1)) x2)
      else if length x2 = 1 then Inr (map (\<lambda>a. cos a (hd x2)) x1)
      else Inl (RuntimeError ''The size of tensor a must match the size of tensor b''))"

text \<open>
  \<open>similarities.topk(k)[1]\<close> on a vector: \<open>RuntimeError\<close> when k is not within the
  size, else the indices of the k largest entries, largest first. Among equal entries
  torch fixes no order, and the order it returns differs from one run of the selection
  to another; the definition puts the earlier index first, which is one of the orders
  torch may return and need not be the one it does. Every evaluation below is on
  similarities without ties, and the properties proved hold for any order among ties.
\<close>

definition topk :: "('s::linorder) list \<Rightarrow> int \<Rightarrow> error + nat list" where
  "topk xs k =
     (if k < 0 \<or> int (length xs) < k then Inl (RuntimeError ''selected index k out of range'')
      else Inr (take (nat k) (rev (sort_key (\<lambda>i. xs ! i) (rev [0..<length xs])))))"

text \<open>\<open>[self.rag_data[i] for i in indices]\<close>: an index past the end raises.\<close>

fun index_all :: "'a list \<Rightarrow> nat list \<Rightarrow> error + 'a list" where
  "index_all xs [] = Inr []"
| "index_all xs (i # is) =
     (if i < length xs
      then (case index_all xs is of Inl e \<Rightarrow> Inl e | Inr ys \<Rightarrow> Inr (xs ! i # ys))
      else Inl (IndexError ''list index out of range''))"

definition get_relevant_context ::
  "('e, 's::linorder) library \<Rightarrow> 'e LLMQuestionAnswerer \<Rightarrow> string \<Rightarrow> error + string" where
  "get_relevant_context lib self question =
     (case rag_embeddings self of
        None \<Rightarrow> Inr ''''
      | Some embeddings \<Rightarrow>
          (case get_embedding self (Str question) of
             Inl e \<Rightarrow> Inl e
           | Inr question_embedding \<Rightarrow>
               (case cosine_similarity (cosine lib) question_embedding embeddings of
                  Inl e \<Rightarrow> Inl e
                | Inr similarities \<Rightarrow>
                    (case topk similarities (rag_k_nearest_neighbors self) of
                       Inl e \<Rightarrow> Inl e
                     | Inr indices \<Rightarrow>
                         (case index_all (rag_data self) indices of
                            Inl e \<Rightarrow> Inl e
                          | Inr relevant_chunks \<Rightarrow> Inr (join '' '' relevant_chunks))))))"

text \<open>
  \<open>generate_structured_output\<close>: \<open>json.dumps\<close> runs before the \<open>try\<close>, so its fault is
  raised; inside, a \<open>JSONDecodeError\<close> of \<open>json.loads\<close> gives the record with the raw
  response and any other exception the record with its message.
\<close>

definition generate_structured_output ::
  "('e, 's) library \<Rightarrow> 'e LLMQuestionAnswerer \<Rightarrow> string \<Rightarrow> (string \<times> py) list \<Rightarrow> int
     \<Rightarrow> error + py" where
  "generate_structured_output lib self prompt output_structure max_length =
     (case json_dumps lib output_structure of
        Inl e \<Rightarrow> Inl e
      | Inr structure_prompt \<Rightarrow>
          (let full_prompt =
                 prompt @ ''\<newline>\<newline>Generate a response in the following JSON structure:\<newline>''
                 @ structure_prompt @ ''\<newline>Response:''
           in case generate_text self full_prompt max_length of
                Inl e \<Rightarrow> Inr (PyDict [(''error'', PyStr (''An error occurred: '' @ str_of e))])
              | Inr response \<Rightarrow>
                  (case json_loads lib response of
                     Inr structured_output \<Rightarrow> Inr structured_output
                   | Inl (JSONDecodeError m) \<Rightarrow>
                       Inr (PyDict [(''error'', PyStr ''Failed to generate valid JSON structure''),
                                    (''raw_response'', PyStr response)])
                   | Inl e \<Rightarrow>
                       Inr (PyDict [(''error'', PyStr (''An error occurred: '' @ str_of e))]))))"

text \<open>
  The plain path of \<open>answer_question\<close>: the \<open>try\<close> around tokenization, generation
  and decoding, whose \<open>except Exception\<close> returns the message as text.
\<close>

definition plain_answer :: "'e LLMQuestionAnswerer \<Rightarrow> string \<Rightarrow> int \<Rightarrow> string" where
  "plain_answer self full_prompt max_length =
     (case generate_text self full_prompt max_length of
        Inl e \<Rightarrow> ''An error occurred: '' @ str_of e
      | Inr t \<Rightarrow> t)"

text \<open>
  \<open>answer_question\<close> from the assembled prompt on. \<open>if output_structure:\<close> tests the
  truth value of the argument: \<open>None\<close> and the empty dict are false and take the plain
  path; any other dict is handed to \<open>generate_structured_output\<close>, outside the \<open>try\<close>.
\<close>

definition answer_prompt ::
  "('e, 's) library \<Rightarrow> 'e LLMQuestionAnswerer \<Rightarrow> string \<Rightarrow> int \<Rightarrow> (string \<times> py) list option
     \<Rightarrow> error + answer" where
  "answer_prompt lib self full_prompt max_length output_structure =
     (case output_structure of
        None \<Rightarrow> Inr (Text (plain_answer self full_prompt max_length))
      | Some d \<Rightarrow>
          (if d \<noteq> []
           then (case generate_structured_output lib self full_prompt d max_length of
                   Inl e \<Rightarrow> Inl e
                 | Inr r \<Rightarrow> Inr (Structured r))
           else Inr (Text (plain_answer self full_prompt max_length))))"

definition answer_question ::
  "('e, 's::linorder) library \<Rightarrow> 'e LLMQuestionAnswerer \<Rightarrow> string \<Rightarrow> bool \<Rightarrow> int
     \<Rightarrow> (string \<times> py) list option \<Rightarrow> error + answer" where
  "answer_question lib self prompt use_rag max_length output_structure =
     (if use_rag
      then (case get_relevant_context lib self prompt of
              Inl e \<Rightarrow> Inl e
            | Inr context \<Rightarrow>
                answer_prompt lib self
                  (''Context: '' @ context @ ''\<newline>\<newline>Question: '' @ prompt
                     @ ''\<newline>\<newline>Answer:'')
                  max_length output_structure)
      else answer_prompt lib self
             (''Question: '' @ prompt @ ''\<newline>\<newline>Answer:'')
             max_length output_structure)"

section \<open>Notions the properties are stated with\<close>

text \<open>
  The token length of a text, \<open>len(self.tokenizer.encode(text))\<close>; for a chunk that is
  returned, the token length of the joined text.
\<close>

definition text_tokens :: "'e LLMQuestionAnswerer \<Rightarrow> string \<Rightarrow> int" where
  "text_tokens self text = int (length (encode (tokenizer self) text))"

text \<open>
  What the loop of \<open>split_document\<close> has in \<open>current_length\<close> instead: the sum of the
  token lengths of the sentences of the chunk, each encoded on its own. It differs from
  the token length of the joined text for a tokenizer that counts the joining spaces.
\<close>

definition chunk_tokens :: "'e LLMQuestionAnswerer \<Rightarrow> string list \<Rightarrow> int" where
  "chunk_tokens self sentences = (\<Sum>s\<leftarrow>sentences. int (length (encode (tokenizer self) s)))"

text \<open>
  The loop of \<open>split_document\<close> once more, keeping every chunk as the list of its
  sentences instead of joining them: \<open>split_loop\<close> is proved to return the joins of
  these groups.
\<close>

fun split_groups ::
  "'e LLMQuestionAnswerer \<Rightarrow> string list \<Rightarrow> string list list \<Rightarrow> string list \<Rightarrow> int
     \<Rightarrow> string list list" where
  "split_groups self [] groups current_chunk current_length =
     (if current_chunk \<noteq> [] then groups @ [current_chunk] else groups)"
| "split_groups self (sentence # sentences) groups current_chunk current_length =
     (let sentence_length = int (length (encode (tokenizer self) sentence))
      in if current_length + sentence_length > max_chunk_size self
         then split_groups self sentences
                (if current_chunk \<noteq> [] then groups @ [current_chunk] else groups)
                [sentence] sentence_length
         else split_groups self sentences groups (current_chunk @ [sentence])
                (current_length + sentence_length))"

text \<open>
  A chunk, as the list of its sentences, respects the budget \<open>max_chunk_size\<close> when its
  token length is within it or the chunk is one sentence.
\<close>

definition within_budget :: "'e LLMQuestionAnswerer \<Rightarrow> string list \<Rightarrow> bool" where
  "within_budget self g = (chunk_tokens self g \<le> max_chunk_size self \<or> length g = 1)"

text \<open>The store invariant: one row of \<open>rag_embeddings\<close> per text of \<open>rag_data\<close>.\<close>

definition store_invariant :: "'e LLMQuestionAnswerer \<Rightarrow> bool" where
  "store_invariant self =
     (length (rag_data self) = (case rag_embeddings self of None \<Rightarrow> 0 | Some rows \<Rightarrow> length rows))"

section \<open>A small instance to run the operations on\<close>

text \<open>
  A tokenizer with one token per character, and a model that embeds a text as its
  number of tokens, runs out of memory on a text of more than 30 tokens, and generates
  its input back. The budget of a chunk is 110 - 100 = 10 tokens.
\<close>

definition demo_tokenizer :: tokenizer where
  "demo_tokenizer =
     \<lparr> encode = map of_char,
       tokenizer_call = (\<lambda>s. Inr (map of_char s)),
       tokenizer_batch = (\<lambda>ss. Inr (map (map of_char) ss)),
       decode = (\<lambda>ids. Inr (map char_of ids)) \<rparr>"

definition demo_embed :: "nat list list \<Rightarrow> error + int list" where
  "demo_embed batch =
     (if list_ex (\<lambda>ids. 30 < length ids) batch then Inl (RuntimeError ''CUDA out of memory'')
      else Inr (map (\<lambda>ids. int (length ids)) batch))"

definition demo_model :: "int model" where
  "demo_model =
     \<lparr> generate = (\<lambda>ids n. Inr ids),
       encoder = demo_embed,
       forward = demo_embed,
       max_position_embeddings = Some 110,
       hidden_size = 1 \<rparr>"

definition demo_sentences :: "string \<Rightarrow> string list" where
  "demo_sentences document =
     (if document = ''A b. C d. E f. A long sentence.''
      then [''A b.'', ''C d.'', ''E f.'', ''A long sentence.'']
      else [document])"

definition demo_lib :: "(int, int) library" where
  "demo_lib =
     \<lparr> AutoTokenizer_from_pretrained =
         (\<lambda>name. if name = ''demo'' then Inr demo_tokenizer
                  else Inl (OtherException ''not a model identifier'')),
       AutoModelForSeq2SeqLM_from_pretrained = (\<lambda>name. Inr demo_model),
       AutoModelForCausalLM_from_pretrained = (\<lambda>name. Inr demo_model),
       sent_tokenize = demo_sentences,
       cosine = (\<lambda>a b. - \<bar>a - b\<bar>),
       json_dumps = (\<lambda>d. if list_ex (\<lambda>(k, v). v = PyOther ''str'') d
                        then Inl (TypeError ''Object of type type is not JSON serializable'')
                        else Inr ''{}''),
       json_loads = (\<lambda>s. if s = ''{}'' then Inr (PyDict [])
                        else Inl (JSONDecodeError ''Expecting value'')) \<rparr>"

text \<open>The object \<open>LLMQuestionAnswerer("demo", "seq2seq", 100)\<close> and a store of four chunks.\<close>

definition demo_qa :: "int LLMQuestionAnswerer" where
  "demo_qa =
     \<lparr> model_name = ''demo'', model_type = ''seq2seq'', quest_ans_tokens_margin = 100,
       tokenizer = demo_tokenizer, model = demo_model, rag_data = [], rag_embeddings = None,
       embedding_size = 1, rag_k_nearest_neighbors = 3 \<rparr>"

definition demo_store :: "int LLMQuestionAnswerer" where
  "demo_store =
     demo_qa\<lparr>rag_data := [''Paris.'', ''The Louvre.'', ''Rome'', ''Bread and wine.''],
             rag_embeddings := Some [6, 11, 4, 15]\<rparr>"

text \<open>
  The same object with a model whose generation runs out of memory, and with one that
  generates the text \<open>{}\<close>.
\<close>

definition demo_no_generation :: "int LLMQuestionAnswerer" where
  "demo_no_generation =
     demo_store\<lparr>model := demo_model\<lparr>generate := (\<lambda>ids n. Inl (RuntimeError ''CUDA out of memory''))\<rparr>\<rparr>"

definition demo_json :: "int LLMQuestionAnswerer" where
  "demo_json = demo_store\<lparr>model := demo_model\<lparr>generate := (\<lambda>ids n. Inr (map of_char ''{}''))\<rparr>\<rparr>"

text \<open>
  The first object with a budget of 8 tokens; and with a tokenizer that gives one token
  per character other than the space, and a budget of 6 tokens.
\<close>

definition demo_tight :: "int LLMQuestionAnswerer" where
  "demo_tight = demo_qa\<lparr>quest_ans_tokens_margin := 102\<rparr>"

definition demo_letters :: "int LLMQuestionAnswerer" where
  "demo_letters =
     demo_qa\<lparr>quest_ans_tokens_margin := 104,
             tokenizer := demo_tokenizer\<lparr>encode := (\<lambda>s. map of_char (filter (\<lambda>c. c \<noteq> CHR '' '') s))\<rparr>\<rparr>"

section \<open>Facts about the small instance\<close>

lemma init_demo: "init demo_lib ''demo'' ''seq2seq'' 100 = Inr demo_qa"
  by (simp add: init_def demo_lib_def demo_qa_def demo_model_def)

lemma demo_embedding:
  "get_embedding demo_qa text =
     demo_embed (map (map of_char) (case text of Str t \<Rightarrow> [t] | StrList ts \<Rightarrow> ts))"
  by (simp add: get_embedding_def demo_qa_def demo_tokenizer_def demo_model_def)

lemma split_document_single:
  "document \<noteq> ''A b. C d. E f. A long sentence.'' \<Longrightarrow>
     split_document demo_lib self document = [document]"
  by (simp add: split_document_def demo_lib_def demo_sentences_def Let_def)

lemma demo_braces: "char_of (123::nat) = CHR ''{''" "char_of (125::nat) = CHR ''}''"
  by code_simp+

lemma demo_generate_text:
  "generate_text demo_store p n = Inr p"
  "generate_text demo_json p n = Inr ''{}''"
  "generate_text demo_no_generation p n = Inl (RuntimeError ''CUDA out of memory'')"
  by (simp_all add: generate_text_def generate_ids_def demo_json_def demo_no_generation_def
      demo_store_def demo_qa_def demo_tokenizer_def demo_model_def comp_def demo_braces)

lemma filter_join_spaces:
  "filter (\<lambda>c. c \<noteq> CHR '' '') (join '' '' g) = concat (map (filter (\<lambda>c. c \<noteq> CHR '' '')) g)"
  by (induction "'' ''" g rule: join.induct) simp_all

lemma demo_letters_encode:
  "encode (tokenizer demo_letters) s = map of_char (filter (\<lambda>c. c \<noteq> CHR '' '') s)"
  by (simp add: demo_letters_def demo_qa_def demo_tokenizer_def)

lemma demo_letters_budget: "max_chunk_size demo_letters = 6"
  by (simp add: max_chunk_size_def demo_letters_def demo_qa_def demo_model_def)

lemma demo_letters_additive:
  "text_tokens demo_letters (join '' '' g) = chunk_tokens demo_letters g"
  by (simp add: text_tokens_def chunk_tokens_def demo_letters_encode filter_join_spaces
      length_concat comp_def) (induction g; simp)

lemma demo_tight_budget: "max_chunk_size demo_tight = 8"
  by (simp add: max_chunk_size_def demo_tight_def demo_qa_def demo_model_def)

lemma demo_tight_encode: "encode (tokenizer demo_tight) s = map of_char s"
  by (simp add: demo_tight_def demo_qa_def demo_tokenizer_def)

section \<open>Chunking\<close>

lemma split_loop_groups:
  "split_loop self sentences (map (join '' '') groups) current_chunk current_length =
     map (join '' '') (split_groups self sentences groups current_chunk current_length)"
proof (induction sentences arbitrary: groups current_chunk current_length)
  case Nil
  then show ?case by simp
next
  case (Cons sentence sentences)
  have flush: "(if current_chunk \<noteq> [] then map (join '' '') groups @ [join '' '' current_chunk]
                else map (join '' '') groups) =
               map (join '' '') (if current_chunk \<noteq> [] then groups @ [current_chunk] else groups)"
    by simp
  show ?case
  proof (cases "current_length + int (length (encode (tokenizer self) sentence)) > max_chunk_size self")
    case True
    then show ?thesis
      unfolding split_loop.simps split_groups.simps Let_def flush
      by (simp only: Cons.IH if_True)
  next
    case False
    then show ?thesis
      unfolding split_loop.simps split_groups.simps Let_def
      by (simp only: Cons.IH if_False)
  qed
qed

lemma split_document_groups:
  "split_document lib self document =
     map (join '' '') (split_groups self (sent_tokenize lib document) [] [] 0)"
  using split_loop_groups [of self "sent_tokenize lib document" "[]" "[]" 0]
  by (simp add: split_document_def)

lemma concat_split_groups:
  "concat (split_groups self sentences groups current_chunk current_length) =
     concat groups @ current_chunk @ sentences"
  by (induction sentences arbitrary: groups current_chunk current_length)
     (simp_all add: Let_def)

lemma split_groups_nonempty:
  "[] \<notin> set groups \<Longrightarrow>
     [] \<notin> set (split_groups self sentences groups current_chunk current_length)"
  by (induction sentences arbitrary: groups current_chunk current_length)
     (simp_all add: Let_def)

lemma join_append:
  "xs \<noteq> [] \<Longrightarrow> ys \<noteq> [] \<Longrightarrow> join sep (xs @ ys) = join sep xs @ sep @ join sep ys"
proof (induction sep xs rule: join.induct)
  case (1 sep)
  then show ?case by simp
next
  case (2 sep x)
  then show ?case by (cases ys) simp_all
next
  case (3 sep x y ys')
  then show ?case by simp
qed

lemma join_groups:
  "[] \<notin> set groups \<Longrightarrow> join sep (map (join sep) groups) = join sep (concat groups)"
proof (induction groups)
  case Nil
  then show ?case by simp
next
  case (Cons g gs)
  show ?case
  proof (cases gs)
    case Nil
    then show ?thesis by simp
  next
    case (Cons h hs)
    with Cons.prems have ne: "g \<noteq> []" "concat gs \<noteq> []" by auto
    from Cons.prems Cons.IH have IH: "join sep (map (join sep) gs) = join sep (concat gs)" by simp
    have "join sep (map (join sep) (g # gs)) = join sep g @ sep @ join sep (map (join sep) gs)"
      using Cons by simp
    also have "\<dots> = join sep (g @ concat gs)"
      using ne IH by (simp add: join_append)
    finally show ?thesis by simp
  qed
qed

lemma chunk_tokens_member:
  "x \<in> set g \<Longrightarrow> chunk_tokens self [x] \<le> chunk_tokens self g"
proof (induction g)
  case Nil
  then show ?case by simp
next
  case (Cons a g)
  have nonneg: "0 \<le> chunk_tokens self g" for g
    unfolding chunk_tokens_def by (induction g) simp_all
  from Cons show ?case
    using nonneg [of g] by (auto simp: chunk_tokens_def)
qed

lemma split_groups_budget:
  assumes "\<forall>g\<in>set groups. within_budget self g"
    and "current_chunk = [] \<or> within_budget self current_chunk"
    and "current_length = chunk_tokens self current_chunk"
  shows "\<forall>g\<in>set (split_groups self sentences groups current_chunk current_length).
           within_budget self g"
  using assms
proof (induction sentences arbitrary: groups current_chunk current_length)
  case Nil
  then show ?case by auto
next
  case (Cons sentence sentences)
  let ?n = "int (length (encode (tokenizer self) sentence))"
  show ?case
  proof (cases "current_length + ?n > max_chunk_size self")
    case True
    have "\<forall>g\<in>set (split_groups self sentences
              (if current_chunk \<noteq> [] then groups @ [current_chunk] else groups) [sentence] ?n).
            within_budget self g"
    proof (rule Cons.IH)
      show "\<forall>g\<in>set (if current_chunk \<noteq> [] then groups @ [current_chunk] else groups).
              within_budget self g"
        using Cons.prems by auto
      show "[sentence] = [] \<or> within_budget self [sentence]"
        by (simp add: within_budget_def)
      show "?n = chunk_tokens self [sentence]"
        by (simp add: chunk_tokens_def)
    qed
    with True show ?thesis by (simp add: Let_def)
  next
    case False
    have "\<forall>g\<in>set (split_groups self sentences groups (current_chunk @ [sentence])
              (current_length + ?n)). within_budget self g"
    proof (rule Cons.IH)
      show "\<forall>g\<in>set groups. within_budget self g" using Cons.prems by simp
      show tot: "current_length + ?n = chunk_tokens self (current_chunk @ [sentence])"
        using Cons.prems(3) by (simp add: chunk_tokens_def)
      show "current_chunk @ [sentence] = [] \<or> within_budget self (current_chunk @ [sentence])"
        using False tot by (simp add: within_budget_def)
    qed
    with False show ?thesis by (simp add: Let_def)
  qed
qed

text \<open>
  Claim C4 (coverage). For every document, the chunks that \<open>split_document\<close> returns
  are the single-space joins of consecutive, non-empty groups of the sentences that the
  sentence splitter produced, and the groups concatenated are exactly the list of those
  sentences: every sentence stands in exactly one chunk, whole, in the original order,
  none dropped and none repeated. Joining the chunks with single spaces gives the same
  text as joining the sentences.
\<close>

theorem split_document_covers_sentences:
  "\<exists>groups. split_document lib self document = map (join '' '') groups
      \<and> concat groups = sent_tokenize lib document
      \<and> [] \<notin> set groups
      \<and> join '' '' (split_document lib self document) = join '' '' (sent_tokenize lib document)"
proof -
  let ?gs = "split_groups self (sent_tokenize lib document) [] [] 0"
  have 1: "split_document lib self document = map (join '' '') ?gs"
    by (rule split_document_groups)
  have 2: "concat ?gs = sent_tokenize lib document"
    by (simp add: concat_split_groups)
  have 3: "[] \<notin> set ?gs"
    by (rule split_groups_nonempty) simp
  have 4: "join '' '' (split_document lib self document) = join '' '' (sent_tokenize lib document)"
    using join_groups [OF 3, of "'' ''"] 1 2 by simp
  from 1 2 3 4 show ?thesis by blast
qed

text \<open>
  Claim C5 (chunk budget), as stated, fails for the token length of the chunk that is
  returned: with a tokenizer of one token per character and a budget of 8, the first
  chunk is the join of two sentences of 4 tokens each and has 9 tokens, the joining
  space being one.
\<close>

theorem split_document_chunk_over_budget:
  "max_chunk_size demo_tight = 8
   \<and> sent_tokenize demo_lib ''A b. C d. E f. A long sentence.''
       = [''A b.'', ''C d.'', ''E f.'', ''A long sentence.'']
   \<and> split_document demo_lib demo_tight ''A b. C d. E f. A long sentence.''
       = [''A b. C d.'', ''E f.'', ''A long sentence.'']
   \<and> ''A b. C d.'' = join '' '' [''A b.'', ''C d.'']
   \<and> text_tokens demo_tight ''A b.'' = 4
   \<and> text_tokens demo_tight ''C d.'' = 4
   \<and> text_tokens demo_tight ''A b. C d.'' = 9"
  by (simp add: split_document_def demo_tight_budget demo_tight_encode text_tokens_def
      demo_lib_def demo_sentences_def)

text \<open>
  Claim C5 (chunk budget), as the code has it. For every document and every budget
  \<open>max_chunk_size\<close> (the maximum input length of the model minus the margin), every
  chunk that \<open>split_document\<close> returns is the single-space join of a group of sentences
  whose token lengths, each sentence encoded on its own as the loop counts them, sum to
  at most the budget, unless the chunk is one sentence whose own token length exceeds
  the budget; and a sentence whose token length exceeds the budget is alone in its
  chunk. When the tokenizer gives the single-space join of sentences no more tokens than
  the sum of their own token lengths, the token length of every returned chunk is within
  the budget, unless the chunk is one sentence of the document that exceeds it.
\<close>

theorem split_document_budget:
  "(\<exists>groups. split_document lib self document = map (join '' '') groups
      \<and> concat groups = sent_tokenize lib document
      \<and> (\<forall>g\<in>set groups. g \<noteq> [] \<and>
            (chunk_tokens self g \<le> max_chunk_size self
             \<or> (\<exists>s. g = [s] \<and> max_chunk_size self < text_tokens self s)))
      \<and> (\<forall>g\<in>set groups. \<forall>s\<in>set g. max_chunk_size self < text_tokens self s \<longrightarrow> g = [s]))
   \<and> ((\<forall>g. g \<noteq> [] \<longrightarrow> text_tokens self (join '' '' g) \<le> chunk_tokens self g) \<longrightarrow>
        (\<forall>chunk\<in>set (split_document lib self document).
           text_tokens self chunk \<le> max_chunk_size self
           \<or> (chunk \<in> set (sent_tokenize lib document)
               \<and> max_chunk_size self < text_tokens self chunk)))"
proof -
  let ?gs = "split_groups self (sent_tokenize lib document) [] [] 0"
  have single: "chunk_tokens self [s] = text_tokens self s" for s
    by (simp add: chunk_tokens_def text_tokens_def)
  have 1: "split_document lib self document = map (join '' '') ?gs"
    by (rule split_document_groups)
  have 2: "concat ?gs = sent_tokenize lib document"
    by (simp add: concat_split_groups)
  have 3: "[] \<notin> set ?gs"
    by (rule split_groups_nonempty) simp
  have 4: "\<forall>g\<in>set ?gs. within_budget self g"
    by (rule split_groups_budget) (simp_all add: chunk_tokens_def)
  have 5: "g \<noteq> [] \<and> (chunk_tokens self g \<le> max_chunk_size self
             \<or> (\<exists>s. g = [s] \<and> max_chunk_size self < text_tokens self s))"
    if "g \<in> set ?gs" for g
  proof -
    from that 3 have "g \<noteq> []" by auto
    moreover from that 4 have "within_budget self g" by simp
    then have "chunk_tokens self g \<le> max_chunk_size self
             \<or> (\<exists>s. g = [s] \<and> max_chunk_size self < text_tokens self s)"
      unfolding within_budget_def by (cases g) (auto simp: single)
    ultimately show ?thesis by simp
  qed
  have 6: "g = [s]"
    if "g \<in> set ?gs" "s \<in> set g" "max_chunk_size self < text_tokens self s" for g s
  proof -
    from that(2) have "chunk_tokens self [s] \<le> chunk_tokens self g"
      by (rule chunk_tokens_member)
    with that(3) have "\<not> chunk_tokens self g \<le> max_chunk_size self"
      by (simp add: single)
    with 5 [OF that(1)] obtain t where "g = [t]" by auto
    with that(2) show ?thesis by simp
  qed
  have 7: "text_tokens self chunk \<le> max_chunk_size self
           \<or> (chunk \<in> set (sent_tokenize lib document)
               \<and> max_chunk_size self < text_tokens self chunk)"
    if sub: "\<forall>g. g \<noteq> [] \<longrightarrow> text_tokens self (join '' '' g) \<le> chunk_tokens self g"
      and chunk: "chunk \<in> set (split_document lib self document)" for chunk
  proof -
    from chunk 1 obtain g where g: "g \<in> set ?gs" and c: "chunk = join '' '' g" by auto
    from 5 [OF g] have ne: "g \<noteq> []"
      and cases: "chunk_tokens self g \<le> max_chunk_size self
             \<or> (\<exists>s. g = [s] \<and> max_chunk_size self < text_tokens self s)"
      by simp_all
    from cases show ?thesis
    proof
      assume "chunk_tokens self g \<le> max_chunk_size self"
      moreover from sub ne have "text_tokens self (join '' '' g) \<le> chunk_tokens self g" by simp
      ultimately show ?thesis using c by simp
    next
      assume "\<exists>s. g = [s] \<and> max_chunk_size self < text_tokens self s"
      then obtain s where s: "g = [s]" "max_chunk_size self < text_tokens self s" by auto
      from s(1) g have "[s] \<in> set ?gs" by simp
      then have "s \<in> set (concat ?gs)" by force
      with 2 have "s \<in> set (sent_tokenize lib document)" by simp
      with s c show ?thesis by simp
    qed
  qed
  have first: "\<exists>groups. split_document lib self document = map (join '' '') groups
      \<and> concat groups = sent_tokenize lib document
      \<and> (\<forall>g\<in>set groups. g \<noteq> [] \<and>
            (chunk_tokens self g \<le> max_chunk_size self
             \<or> (\<exists>s. g = [s] \<and> max_chunk_size self < text_tokens self s)))
      \<and> (\<forall>g\<in>set groups. \<forall>s\<in>set g. max_chunk_size self < text_tokens self s \<longrightarrow> g = [s])"
    using 1 2 5 6 by blast
  from first 7 show ?thesis by blast
qed

theorem split_document_budget_witness:
  "max_chunk_size demo_letters = 6
   \<and> split_document demo_lib demo_letters ''A b. C d. E f. A long sentence.''
       = [''A b. C d.'', ''E f.'', ''A long sentence.'']
   \<and> text_tokens demo_letters ''A b. C d.'' = 6
   \<and> text_tokens demo_letters ''E f.'' = 3
   \<and> text_tokens demo_letters ''A long sentence.'' = 14
   \<and> ''A long sentence.'' \<in> set (sent_tokenize demo_lib ''A b. C d. E f. A long sentence.'')
   \<and> (\<exists>groups.
         split_document demo_lib demo_letters ''A b. C d. E f. A long sentence.''
           = map (join '' '') groups
         \<and> concat groups = sent_tokenize demo_lib ''A b. C d. E f. A long sentence.''
         \<and> (\<forall>g\<in>set groups. g \<noteq> [] \<and>
               (chunk_tokens demo_letters g \<le> max_chunk_size demo_letters
                \<or> (\<exists>s. g = [s] \<and> max_chunk_size demo_letters < text_tokens demo_letters s)))
         \<and> (\<forall>g\<in>set groups. \<forall>s\<in>set g.
               max_chunk_size demo_letters < text_tokens demo_letters s \<longrightarrow> g = [s]))
   \<and> list_all (\<lambda>chunk. text_tokens demo_letters chunk \<le> max_chunk_size demo_letters
           \<or> (chunk \<in> set (sent_tokenize demo_lib ''A b. C d. E f. A long sentence.'')
               \<and> max_chunk_size demo_letters < text_tokens demo_letters chunk))
        (split_document demo_lib demo_letters ''A b. C d. E f. A long sentence.'')"
proof -
  let ?doc = "''A b. C d. E f. A long sentence.''"
  have sub: "\<forall>g. g \<noteq> [] \<longrightarrow>
      text_tokens demo_letters (join '' '' g) \<le> chunk_tokens demo_letters g"
    by (simp add: demo_letters_additive)
  have chunks: "split_document demo_lib demo_letters ?doc
       = [''A b. C d.'', ''E f.'', ''A long sentence.'']"
    by (simp add: split_document_def demo_letters_budget demo_letters_encode demo_lib_def
        demo_sentences_def)
  have counts: "text_tokens demo_letters ''A b. C d.'' = 6"
      "text_tokens demo_letters ''E f.'' = 3"
      "text_tokens demo_letters ''A long sentence.'' = 14"
    by (simp_all add: text_tokens_def demo_letters_encode)
  have sentence: "''A long sentence.'' \<in> set (sent_tokenize demo_lib ?doc)"
    by (simp add: demo_lib_def demo_sentences_def)
  note inst = split_document_budget [of demo_lib demo_letters ?doc]
  from inst have groups: "\<exists>groups.
         split_document demo_lib demo_letters ?doc = map (join '' '') groups
         \<and> concat groups = sent_tokenize demo_lib ?doc
         \<and> (\<forall>g\<in>set groups. g \<noteq> [] \<and>
               (chunk_tokens demo_letters g \<le> max_chunk_size demo_letters
                \<or> (\<exists>s. g = [s] \<and> max_chunk_size demo_letters < text_tokens demo_letters s)))
         \<and> (\<forall>g\<in>set groups. \<forall>s\<in>set g.
               max_chunk_size demo_letters < text_tokens demo_letters s \<longrightarrow> g = [s])"
    by (rule conjunct1)
  from inst sub have "\<forall>chunk\<in>set (split_document demo_lib demo_letters ?doc).
           text_tokens demo_letters chunk \<le> max_chunk_size demo_letters
           \<or> (chunk \<in> set (sent_tokenize demo_lib ?doc)
               \<and> max_chunk_size demo_letters < text_tokens demo_letters chunk)"
    by blast
  then have all: "list_all (\<lambda>chunk. text_tokens demo_letters chunk \<le> max_chunk_size demo_letters
           \<or> (chunk \<in> set (sent_tokenize demo_lib ?doc)
               \<and> max_chunk_size demo_letters < text_tokens demo_letters chunk))
        (split_document demo_lib demo_letters ?doc)"
    by (simp only: list_all_iff)
  from demo_letters_budget chunks counts sentence groups all show ?thesis
    by (intro conjI)
qed

section \<open>The store\<close>

lemma get_embedding_store_independent:
  "get_embedding (self\<lparr>rag_data := texts\<rparr>) text = get_embedding self text"
  "get_embedding (self\<lparr>rag_embeddings := rows\<rparr>) text = get_embedding self text"
  by (simp_all add: get_embedding_def split: sum.splits)

lemma demo_store_embedding:
  "get_embedding demo_store text = get_embedding demo_qa text"
  by (simp add: demo_store_def get_embedding_store_independent)

text \<open>
  A call of \<open>add_rag_data\<close> that returns keeps the store invariant, when the embedder
  returns one row per text.
\<close>

lemma add_rag_data_success_invariant:
  assumes "store_invariant self"
    and "\<forall>texts rows. get_embedding self (StrList texts) = Inr rows \<longrightarrow> length rows = length texts"
    and "add_rag_data lib self documents use_summaries = (None, self')"
  shows "store_invariant self'"
  using assms
  by (auto simp: add_rag_data_def store_invariant_def store_embeddings_def Let_def
      get_embedding_store_independent split: if_splits sum.splits option.splits)

lemma demo_embed_contract:
  "get_embedding demo_qa (StrList texts) = Inr rows \<longrightarrow> length rows = length texts"
  by (auto simp: demo_embedding demo_embed_def split: if_splits)

theorem add_rag_data_success_invariant_witness:
  "store_invariant demo_qa
   \<and> add_rag_data demo_lib demo_qa [''Paris.''] False
       = (None, demo_qa\<lparr>rag_data := [''Paris.''], rag_embeddings := Some [6]\<rparr>)
   \<and> store_invariant (demo_qa\<lparr>rag_data := [''Paris.''], rag_embeddings := Some [6]\<rparr>)"
proof -
  have inv: "store_invariant demo_qa"
    by (simp add: store_invariant_def demo_qa_def)
  have contract: "\<forall>texts rows. get_embedding demo_qa (StrList texts) = Inr rows
      \<longrightarrow> length rows = length texts"
    using demo_embed_contract by blast
  have emb: "get_embedding (demo_qa\<lparr>rag_data := texts\<rparr>) (StrList [''Paris.'']) = Inr [6]" for texts
    by (simp add: get_embedding_store_independent demo_embedding demo_embed_def)
  have res: "add_rag_data demo_lib demo_qa [''Paris.''] False
      = (None, demo_qa\<lparr>rag_data := [''Paris.''], rag_embeddings := Some [6]\<rparr>)"
    by (simp add: add_rag_data_def split_document_single emb store_embeddings_def)
       (simp add: demo_qa_def)
  from inv res add_rag_data_success_invariant [OF inv contract res] show ?thesis
    by (intro conjI)
qed

text \<open>
  With \<open>use_summaries\<close>, a fault of the summarization ends \<open>add_rag_data\<close> before
  anything is stored: the object is as it was.
\<close>

lemma add_rag_data_summary_fault_unchanged:
  assumes "summarize_all self (concat (map (split_document lib self) documents)) = Inl e"
  shows "add_rag_data lib self documents True = (Some e, self)"
  using assms by (simp add: add_rag_data_def)

lemma demo_summarize_fault:
  "summarize_chunk demo_no_generation chunk n = Inl (RuntimeError ''CUDA out of memory'')"
  by (simp add: summarize_chunk_def demo_generate_text)

theorem add_rag_data_summary_fault_unchanged_witness:
  "summarize_all demo_no_generation (concat (map (split_document demo_lib demo_no_generation) [''Wine.'']))
     = Inl (RuntimeError ''CUDA out of memory'')
   \<and> add_rag_data demo_lib demo_no_generation [''Wine.''] True
       = (Some (RuntimeError ''CUDA out of memory''), demo_no_generation)"
proof -
  have fault: "summarize_all demo_no_generation
      (concat (map (split_document demo_lib demo_no_generation) [''Wine.'']))
     = Inl (RuntimeError ''CUDA out of memory'')"
    by (simp add: split_document_single demo_summarize_fault)
  from fault add_rag_data_summary_fault_unchanged [OF fault] show ?thesis
    by (intro conjI)
qed

text \<open>
  Claim C1 (store invariant, no partial commit). The claim fails on the code:
  \<open>add_rag_data\<close> appends the texts to \<open>rag_data\<close> before it calls
  \<open>get_embedding\<close>. On a store of four texts and four rows, a call whose batch the
  embedder cannot take raises the embedder's exception, leaves the two new texts in
  \<open>rag_data\<close> and \<open>rag_embeddings\<close> as it was: six texts, four rows.
\<close>

theorem add_rag_data_embedding_fault_keeps_texts:
  "store_invariant demo_store
   \<and> fst (add_rag_data demo_lib demo_store [''Wine.'', ''A document that is too long to embed.''] False)
       = Some (RuntimeError ''CUDA out of memory'')
   \<and> rag_data (snd (add_rag_data demo_lib demo_store
         [''Wine.'', ''A document that is too long to embed.''] False))
       = rag_data demo_store @ [''Wine.'', ''A document that is too long to embed.'']
   \<and> rag_embeddings (snd (add_rag_data demo_lib demo_store
         [''Wine.'', ''A document that is too long to embed.''] False))
       = rag_embeddings demo_store
   \<and> \<not> store_invariant (snd (add_rag_data demo_lib demo_store
         [''Wine.'', ''A document that is too long to embed.''] False))"
proof -
  have emb: "get_embedding (demo_store\<lparr>rag_data := texts\<rparr>)
               (StrList [''Wine.'', ''A document that is too long to embed.''])
             = Inl (RuntimeError ''CUDA out of memory'')" for texts
    by (simp add: demo_store_def get_embedding_store_independent demo_embedding demo_embed_def)
  have res: "add_rag_data demo_lib demo_store [''Wine.'', ''A document that is too long to embed.''] False
      = (Some (RuntimeError ''CUDA out of memory''),
         demo_store\<lparr>rag_data := rag_data demo_store
                        @ [''Wine.'', ''A document that is too long to embed.'']\<rparr>)"
    by (simp add: add_rag_data_def split_document_single emb)
  have inv: "store_invariant demo_store"
    by (simp add: store_invariant_def demo_store_def)
  show ?thesis
    unfolding res using inv by (simp add: store_invariant_def demo_store_def)
qed

text \<open>
  What the broken invariant does to retrieval: after the failed call, a call that adds
  the chunk \<open>Cheeses\<close> stores its embedding in row 4, while \<open>rag_data\<close> holds a text of
  the failed call at index 4. The question \<open>Cheeses\<close> selects row 4 first and gets that
  other text.
\<close>

lemma retrieval_misaligned_after_failed_add:
  "rag_data (add_calls demo_lib demo_store
       [([''Wine.'', ''A document that is too long to embed.''], False), ([''Cheeses''], False)])
     = [''Paris.'', ''The Louvre.'', ''Rome'', ''Bread and wine.'',
        ''Wine.'', ''A document that is too long to embed.'', ''Cheeses'']
   \<and> rag_embeddings (add_calls demo_lib demo_store
       [([''Wine.'', ''A document that is too long to embed.''], False), ([''Cheeses''], False)])
     = Some [6, 11, 4, 15, 7]
   \<and> get_relevant_context demo_lib (add_calls demo_lib demo_store
       [([''Wine.'', ''A document that is too long to embed.''], False), ([''Cheeses''], False)])
       ''Cheeses''
     = Inr ''Wine. Paris. Rome''"
proof -
  let ?s1 = "demo_store\<lparr>rag_data := rag_data demo_store
                        @ [''Wine.'', ''A document that is too long to embed.'']\<rparr>"
  let ?s2 = "demo_store\<lparr>rag_data := [''Paris.'', ''The Louvre.'', ''Rome'', ''Bread and wine.'',
        ''Wine.'', ''A document that is too long to embed.'', ''Cheeses''],
        rag_embeddings := Some [6, 11, 4, 15, 7]\<rparr>"
  have emb1: "get_embedding (demo_store\<lparr>rag_data := texts\<rparr>)
               (StrList [''Wine.'', ''A document that is too long to embed.''])
             = Inl (RuntimeError ''CUDA out of memory'')" for texts
    by (simp add: demo_store_def get_embedding_store_independent demo_embedding demo_embed_def)
  have first: "add_rag_data demo_lib demo_store [''Wine.'', ''A document that is too long to embed.''] False
      = (Some (RuntimeError ''CUDA out of memory''), ?s1)"
    by (simp add: add_rag_data_def split_document_single emb1)
  have emb2: "get_embedding (demo_store\<lparr>rag_data := texts\<rparr>) (StrList [''Cheeses'']) = Inr [7]" for texts
    by (simp add: demo_store_def get_embedding_store_independent demo_embedding demo_embed_def)
  have second: "add_rag_data demo_lib ?s1 [''Cheeses''] False = (None, ?s2)"
    by (simp add: add_rag_data_def split_document_single emb2 store_embeddings_def)
       (simp add: demo_store_def)
  have state: "add_calls demo_lib demo_store
       [([''Wine.'', ''A document that is too long to embed.''], False), ([''Cheeses''], False)] = ?s2"
    by (simp add: first second)
  have q: "get_embedding ?s2 (Str ''Cheeses'') = Inr [7]"
    by (simp add: demo_store_def get_embedding_store_independent demo_embedding demo_embed_def)
  have ctx: "get_relevant_context demo_lib ?s2 ''Cheeses'' = Inr ''Wine. Paris. Rome''"
    by (simp add: get_relevant_context_def q cosine_similarity_def topk_def)
       (simp add: demo_lib_def demo_store_def demo_qa_def)
  show ?thesis
    unfolding state using ctx by simp
qed

section \<open>Retrieval\<close>

lemma index_all_in_range:
  "\<forall>i\<in>set is. i < length xs \<Longrightarrow> index_all xs is = Inr (map (\<lambda>i. xs ! i) is)"
  by (induction "is") simp_all

lemma cosine_similarity_row:
  "cosine_similarity cos [q] rows = Inr (map (cos q) rows)"
proof (cases "length rows = 1")
  case True
  then obtain r where "rows = [r]" by (cases rows) auto
  then show ?thesis by (simp add: cosine_similarity_def)
next
  case False
  then show ?thesis by (auto simp: cosine_similarity_def)
qed

lemma topk_out_of_range:
  "int (length xs) < k \<Longrightarrow> topk xs k = Inl (RuntimeError ''selected index k out of range'')"
  by (simp add: topk_def)

lemma topk_selects:
  fixes xs :: "('s::linorder) list"
  assumes "0 \<le> k" and "k \<le> int (length xs)"
  shows "\<exists>idx. topk xs k = Inr idx \<and> length idx = nat k \<and> distinct idx
           \<and> (\<forall>i\<in>set idx. i < length xs)
           \<and> sorted_wrt (\<lambda>i j. xs ! j \<le> xs ! i) idx
           \<and> (\<forall>j<length xs. j \<notin> set idx \<longrightarrow> (\<forall>i\<in>set idx. xs ! j \<le> xs ! i))"
proof -
  let ?f = "\<lambda>i. xs ! i"
  let ?L = "rev (sort_key ?f (rev [0..<length xs]))"
  let ?idx = "take (nat k) ?L"
  have val: "topk xs k = Inr ?idx"
    using assms by (simp add: topk_def)
  have setL: "set ?L = {0..<length xs}" by simp
  have distL: "distinct ?L" by simp
  have lenL: "length ?L = length xs" by simp
  have "sorted (map ?f (sort_key ?f (rev [0..<length xs])))"
    by (rule sorted_sort_key)
  then have "sorted_wrt (\<lambda>i j. ?f i \<le> ?f j) (sort_key ?f (rev [0..<length xs]))"
    by (simp add: sorted_map)
  then have sortL: "sorted_wrt (\<lambda>i j. ?f j \<le> ?f i) ?L"
    by (simp add: sorted_wrt_rev)
  have split: "?L = ?idx @ drop (nat k) ?L" by simp
  have len: "length ?idx = nat k"
    using assms lenL by simp
  have dist: "distinct ?idx"
    using distL by (rule distinct_take)
  have range: "\<forall>i\<in>set ?idx. i < length xs"
  proof
    fix i assume "i \<in> set ?idx"
    then have "i \<in> set ?L" by (rule in_set_takeD)
    with setL show "i < length xs" by simp
  qed
  have desc: "sorted_wrt (\<lambda>i j. ?f j \<le> ?f i) ?idx"
    using sortL by (rule sorted_wrt_take)
  have cross: "\<forall>i\<in>set ?idx. \<forall>j\<in>set (drop (nat k) ?L). ?f j \<le> ?f i"
    using sortL split sorted_wrt_append [of "\<lambda>i j. ?f j \<le> ?f i" ?idx "drop (nat k) ?L"]
    by simp
  have rest: "\<forall>j<length xs. j \<notin> set ?idx \<longrightarrow> (\<forall>i\<in>set ?idx. ?f j \<le> ?f i)"
  proof (intro allI impI ballI)
    fix j i assume j: "j < length xs" "j \<notin> set ?idx" and i: "i \<in> set ?idx"
    from j(1) setL have "j \<in> set ?L" by simp
    moreover have "set ?L = set ?idx \<union> set (drop (nat k) ?L)"
      by (metis append_take_drop_id set_append)
    ultimately have "j \<in> set ?idx \<union> set (drop (nat k) ?L)"
      by (simp only:)
    with j(2) have "j \<in> set (drop (nat k) ?L)" by simp
    with cross i show "?f j \<le> ?f i" by blast
  qed
  from val len dist range desc rest show ?thesis by blast
qed

text \<open>
  On a store of fewer rows than \<open>rag_k_nearest_neighbors\<close>, \<open>get_relevant_context\<close>
  raises the \<open>RuntimeError\<close> of \<open>topk\<close>.
\<close>

lemma get_relevant_context_k_too_large:
  fixes lib :: "('e, 's::linorder) library"
  assumes "rag_embeddings self = Some rows"
    and "get_embedding self (Str question) = Inr [q]"
    and "int (length rows) < rag_k_nearest_neighbors self"
  shows "get_relevant_context lib self question = Inl (RuntimeError ''selected index k out of range'')"
  using assms
  by (simp add: get_relevant_context_def cosine_similarity_row topk_out_of_range)

theorem get_relevant_context_k_too_large_witness:
  "rag_embeddings (demo_qa\<lparr>rag_data := [''Paris.''], rag_embeddings := Some [6]\<rparr>) = Some [6]
   \<and> get_embedding (demo_qa\<lparr>rag_data := [''Paris.''], rag_embeddings := Some [6]\<rparr>) (Str ''Who?'')
       = Inr [4]
   \<and> int (length [6 :: int])
       < rag_k_nearest_neighbors (demo_qa\<lparr>rag_data := [''Paris.''], rag_embeddings := Some [6]\<rparr>)
   \<and> get_relevant_context demo_lib
         (demo_qa\<lparr>rag_data := [''Paris.''], rag_embeddings := Some [6]\<rparr>) ''Who?''
       = Inl (RuntimeError ''selected index k out of range'')"
proof -
  let ?s = "demo_qa\<lparr>rag_data := [''Paris.''], rag_embeddings := Some [6]\<rparr>"
  have rows: "rag_embeddings ?s = Some [6]" by simp
  have q: "get_embedding ?s (Str ''Who?'') = Inr [4]"
    by (simp add: get_embedding_store_independent demo_embedding demo_embed_def)
  have k: "int (length [6 :: int]) < rag_k_nearest_neighbors ?s"
    by (simp add: demo_qa_def)
  from rows q k get_relevant_context_k_too_large [OF rows q k, of demo_lib] show ?thesis
    by (intro conjI)
qed

text \<open>
  Claim C2 (k clamped to the store size). The claim fails on the code: k is not
  clamped. After one document of one chunk has been added to a new object, whose k is
  3, \<open>get_relevant_context\<close> raises the \<open>RuntimeError\<close> of \<open>topk\<close>.
\<close>

theorem get_relevant_context_small_store_raises:
  "fst (add_rag_data demo_lib demo_qa [''Paris.''] False) = None
   \<and> rag_data (snd (add_rag_data demo_lib demo_qa [''Paris.''] False)) = [''Paris.'']
   \<and> rag_embeddings (snd (add_rag_data demo_lib demo_qa [''Paris.''] False)) = Some [6]
   \<and> rag_k_nearest_neighbors (snd (add_rag_data demo_lib demo_qa [''Paris.''] False)) = 3
   \<and> get_relevant_context demo_lib (snd (add_rag_data demo_lib demo_qa [''Paris.''] False)) ''Who?''
       = Inl (RuntimeError ''selected index k out of range'')"
proof -
  have emb: "get_embedding (demo_qa\<lparr>rag_data := texts\<rparr>) (StrList [''Paris.'']) = Inr [6]" for texts
    by (simp add: get_embedding_store_independent demo_embedding demo_embed_def)
  have res: "add_rag_data demo_lib demo_qa [''Paris.''] False
      = (None, demo_qa\<lparr>rag_data := [''Paris.''], rag_embeddings := Some [6]\<rparr>)"
    by (simp add: add_rag_data_def split_document_single emb store_embeddings_def)
       (simp add: demo_qa_def)
  have q: "get_embedding (demo_qa\<lparr>rag_data := [''Paris.''], rag_embeddings := Some [6]\<rparr>) (Str ''Who?'')
             = Inr [4]"
    by (simp add: get_embedding_store_independent demo_embedding demo_embed_def)
  show ?thesis
    unfolding res
    by (simp add: get_relevant_context_def q cosine_similarity_def topk_def)
       (simp add: demo_qa_def)
qed

text \<open>
  Claim C3 (retrieval ordering). For every store of n texts with one row each, every
  k with \<open>0 \<le> k \<le> n\<close> and every question that the embedder turns into one vector
  \<open>q\<close>, \<open>get_relevant_context\<close> returns the single-space join of the stored texts at
  k distinct indices, listed by descending cosine with \<open>q\<close>, and no row left out has a
  higher cosine than a row selected.
\<close>

theorem get_relevant_context_top_k:
  fixes lib :: "('e, 's::linorder) library"
  assumes store: "rag_embeddings self = Some rows"
    and inv: "length (rag_data self) = length rows"
    and k: "0 \<le> rag_k_nearest_neighbors self" "rag_k_nearest_neighbors self \<le> int (length rows)"
    and emb: "get_embedding self (Str question) = Inr [q]"
  shows "\<exists>idx. get_relevant_context lib self question
                  = Inr (join '' '' (map (\<lambda>i. rag_data self ! i) idx))
           \<and> length idx = nat (rag_k_nearest_neighbors self)
           \<and> distinct idx
           \<and> (\<forall>i\<in>set idx. i < length rows)
           \<and> sorted_wrt (\<lambda>i j. cosine lib q (rows ! j) \<le> cosine lib q (rows ! i)) idx
           \<and> (\<forall>j<length rows. j \<notin> set idx \<longrightarrow>
                 (\<forall>i\<in>set idx. cosine lib q (rows ! j) \<le> cosine lib q (rows ! i)))"
proof -
  let ?sims = "map (cosine lib q) rows"
  from k obtain idx where
    top: "topk ?sims (rag_k_nearest_neighbors self) = Inr idx"
    and len: "length idx = nat (rag_k_nearest_neighbors self)"
    and dist: "distinct idx"
    and range: "\<forall>i\<in>set idx. i < length rows"
    and desc: "sorted_wrt (\<lambda>i j. ?sims ! j \<le> ?sims ! i) idx"
    and rest: "\<forall>j<length rows. j \<notin> set idx \<longrightarrow> (\<forall>i\<in>set idx. ?sims ! j \<le> ?sims ! i)"
    using topk_selects [of "rag_k_nearest_neighbors self" ?sims] by auto
  have look: "index_all (rag_data self) idx = Inr (map (\<lambda>i. rag_data self ! i) idx)"
    using range inv by (intro index_all_in_range) simp
  have val: "get_relevant_context lib self question
               = Inr (join '' '' (map (\<lambda>i. rag_data self ! i) idx))"
    by (simp add: get_relevant_context_def store emb cosine_similarity_row top look)
  have desc': "sorted_wrt (\<lambda>i j. cosine lib q (rows ! j) \<le> cosine lib q (rows ! i)) idx"
    using desc range by (auto elim!: sorted_wrt_mono_rel [rotated])
  have rest': "\<forall>j<length rows. j \<notin> set idx \<longrightarrow>
                 (\<forall>i\<in>set idx. cosine lib q (rows ! j) \<le> cosine lib q (rows ! i))"
    using rest range by auto
  from val len dist range desc' rest' show ?thesis by blast
qed

theorem get_relevant_context_top_k_witness:
  "rag_embeddings demo_store = Some [6, 11, 4, 15]
   \<and> length (rag_data demo_store) = length [6, 11, 4, 15 :: int]
   \<and> 0 \<le> rag_k_nearest_neighbors demo_store
   \<and> rag_k_nearest_neighbors demo_store \<le> int (length [6, 11, 4, 15 :: int])
   \<and> get_embedding demo_store (Str ''Who ate bread?'') = Inr [14]
   \<and> get_relevant_context demo_lib demo_store ''Who ate bread?''
       = Inr ''Bread and wine. The Louvre. Paris.''
   \<and> (\<exists>idx. get_relevant_context demo_lib demo_store ''Who ate bread?''
                  = Inr (join '' '' (map (\<lambda>i. rag_data demo_store ! i) idx))
           \<and> length idx = nat (rag_k_nearest_neighbors demo_store)
           \<and> distinct idx
           \<and> (\<forall>i\<in>set idx. i < length [6, 11, 4, 15 :: int])
           \<and> sorted_wrt (\<lambda>i j. cosine demo_lib 14 ([6, 11, 4, 15] ! j)
                                  \<le> cosine demo_lib 14 ([6, 11, 4, 15] ! i)) idx
           \<and> (\<forall>j<length [6, 11, 4, 15 :: int]. j \<notin> set idx \<longrightarrow>
                 (\<forall>i\<in>set idx. cosine demo_lib 14 ([6, 11, 4, 15] ! j)
                                \<le> cosine demo_lib 14 ([6, 11, 4, 15] ! i))))"
proof -
  have store: "rag_embeddings demo_store = Some [6, 11, 4, 15]"
    by (simp add: demo_store_def)
  have inv: "length (rag_data demo_store) = length [6, 11, 4, 15 :: int]"
    by (simp add: demo_store_def)
  have k: "0 \<le> rag_k_nearest_neighbors demo_store"
      "rag_k_nearest_neighbors demo_store \<le> int (length [6, 11, 4, 15 :: int])"
    by (simp_all add: demo_store_def demo_qa_def)
  have emb: "get_embedding demo_store (Str ''Who ate bread?'') = Inr [14]"
    by (simp add: demo_store_embedding demo_embedding demo_embed_def)
  have val: "get_relevant_context demo_lib demo_store ''Who ate bread?''
       = Inr ''Bread and wine. The Louvre. Paris.''"
    by (simp add: get_relevant_context_def store emb cosine_similarity_def topk_def)
       (simp add: demo_lib_def demo_store_def demo_qa_def)
  show ?thesis
    using store inv k emb val
      get_relevant_context_top_k [OF store inv k emb, of demo_lib]
    by (intro conjI) assumption+
qed

text \<open>
  When \<open>rag_embeddings\<close> is \<open>None\<close>: from the construction on, and after every
  \<open>add_rag_data\<close> call that raised.
\<close>

lemma init_store_empty:
  "init lib name type margin = Inr self \<Longrightarrow> rag_data self = [] \<and> rag_embeddings self = None"
  by (auto simp: init_def split: sum.splits if_splits)

lemma add_rag_data_fault_keeps_embeddings:
  "fst (add_rag_data lib self documents use_summaries) = Some e \<Longrightarrow>
     rag_embeddings (snd (add_rag_data lib self documents use_summaries)) = rag_embeddings self"
  by (auto simp: add_rag_data_def Let_def split: sum.splits if_splits)

text \<open>
  Claim C6 (empty store). For every question, while \<open>rag_embeddings\<close> is \<open>None\<close> (no
  \<open>add_rag_data\<close> call has returned yet), \<open>get_relevant_context\<close> returns the
  empty string, whatever the tokenizer and the model of the object would do, so without
  a call of the embedder and without a fault; \<open>answer_question\<close> with \<open>use_rag\<close> goes
  on with the prompt built from the empty context.
\<close>

theorem get_relevant_context_empty_store:
  assumes "rag_embeddings self = None"
  shows "get_relevant_context lib self question = Inr ''''
     \<and> get_relevant_context lib (self\<lparr>tokenizer := tk, model := m\<rparr>) question = Inr ''''
     \<and> answer_question lib self question True max_length output_structure
         = answer_prompt lib self
             (''Context: '' @ '''' @ ''\<newline>\<newline>Question: '' @ question @ ''\<newline>\<newline>Answer:'')
             max_length output_structure
     \<and> answer_question lib self question True max_length None
         = Inr (Text (plain_answer self
             (''Context: \<newline>\<newline>Question: '' @ question @ ''\<newline>\<newline>Answer:'') max_length))"
  using assms
  by (simp add: get_relevant_context_def answer_question_def answer_prompt_def)

theorem get_relevant_context_empty_store_witness:
  "init demo_lib ''demo'' ''seq2seq'' 100 = Inr demo_qa
   \<and> rag_embeddings demo_qa = None
   \<and> get_relevant_context demo_lib demo_qa ''Who?'' = Inr ''''
   \<and> get_relevant_context demo_lib
        (demo_qa\<lparr>tokenizer := demo_tokenizer\<lparr>tokenizer_batch := \<lambda>ss. Inl (RuntimeError ''no tokenizer'')\<rparr>,
                 model := demo_model\<lparr>encoder := \<lambda>b. Inl (RuntimeError ''no encoder'')\<rparr>\<rparr>) ''Who?''
       = Inr ''''
   \<and> answer_question demo_lib demo_qa ''Who?'' True 100 None
       = Inr (Text ''Context: \<newline>\<newline>Question: Who?\<newline>\<newline>Answer:'')"
proof -
  have empty: "rag_embeddings demo_qa = None"
    by (simp add: demo_qa_def)
  have echo: "plain_answer demo_qa p n = p" for p n
    by (simp add: plain_answer_def generate_text_def generate_ids_def demo_qa_def
        demo_tokenizer_def demo_model_def comp_def)
  show ?thesis
    using empty get_relevant_context_empty_store [OF empty, where lib = demo_lib and question = "''Who?''"
        and tk = "demo_tokenizer\<lparr>tokenizer_batch := \<lambda>ss. Inl (RuntimeError ''no tokenizer'')\<rparr>"
        and m = "demo_model\<lparr>encoder := \<lambda>b. Inl (RuntimeError ''no encoder'')\<rparr>"
        and max_length = 100 and output_structure = None]
    by (simp add: echo answer_prompt_def init_demo)
qed

section \<open>Construction\<close>

lemma add_rag_data_model_type:
  "model_type (snd (add_rag_data lib self documents use_summaries)) = model_type self"
  by (simp add: add_rag_data_def store_embeddings_def Let_def split: sum.splits)

lemma add_calls_model_type:
  "model_type (add_calls lib self calls) = model_type self"
  by (induction calls arbitrary: self) (auto simp: add_rag_data_model_type)

text \<open>
  Claim C9 (decoding convention fixed at construction). For every constructor call
  whose \<open>model_type\<close> is neither \<open>seq2seq\<close> nor \<open>causal\<close>, \<open>__init__\<close> raises and no
  object is produced: once the tokenizer is loaded, the error is the \<open>ValueError\<close> of the
  check, before any model is loaded. An object that is produced has one of the two
  types, the one asked for, and keeps it through every later \<open>add_rag_data\<close> call, the
  only operation that changes the object.
\<close>

theorem init_model_type:
  "(type \<noteq> ''seq2seq'' \<and> type \<noteq> ''causal'' \<longrightarrow>
      (\<exists>e. init lib name type margin = Inl e)
      \<and> (\<forall>tk. AutoTokenizer_from_pretrained lib name = Inr tk \<longrightarrow>
            init lib name type margin
              = Inl (ValueError ''Unsupported model type. Use 'seq2seq' or 'causal'.'')))
   \<and> (\<forall>self. init lib name type margin = Inr self \<longrightarrow>
         (type = ''seq2seq'' \<or> type = ''causal'')
         \<and> model_type self = type
         \<and> (\<forall>calls. model_type (add_calls lib self calls) = type))"
proof (intro conjI impI allI)
  assume bad: "type \<noteq> ''seq2seq'' \<and> type \<noteq> ''causal''"
  then show "\<exists>e. init lib name type margin = Inl e"
    by (cases "AutoTokenizer_from_pretrained lib name") (simp_all add: init_def)
  fix tk assume "AutoTokenizer_from_pretrained lib name = Inr tk"
  with bad show "init lib name type margin
      = Inl (ValueError ''Unsupported model type. Use 'seq2seq' or 'causal'.'')"
    by (simp add: init_def)
next
  fix self assume ok: "init lib name type margin = Inr self"
  then show "type = ''seq2seq'' \<or> type = ''causal''"
    by (auto simp: init_def split: sum.splits if_splits)
  from ok show mt: "model_type self = type"
    by (auto simp: init_def split: sum.splits if_splits)
  fix calls show "model_type (add_calls lib self calls) = type"
    using mt by (simp add: add_calls_model_type)
qed

theorem init_model_type_witness:
  "init demo_lib ''demo'' ''encoder'' 100
     = Inl (ValueError ''Unsupported model type. Use 'seq2seq' or 'causal'.'')
   \<and> init demo_lib ''demo'' ''seq2seq'' 100 = Inr demo_qa
   \<and> model_type demo_qa = ''seq2seq''
   \<and> model_type (add_calls demo_lib demo_qa [([''Paris.''], False), ([''Rome''], True)]) = ''seq2seq''"
proof -
  have tk: "AutoTokenizer_from_pretrained demo_lib ''demo'' = Inr demo_tokenizer"
    by (simp add: demo_lib_def)
  have bad: "''encoder'' \<noteq> ''seq2seq'' \<and> ''encoder'' \<noteq> ''causal''"
    by simp
  have rejected: "init demo_lib ''demo'' ''encoder'' 100
      = Inl (ValueError ''Unsupported model type. Use 'seq2seq' or 'causal'.'')"
    using init_model_type [of "''encoder''" demo_lib "''demo''" 100] tk bad by blast
  have fixed: "model_type demo_qa = ''seq2seq''
      \<and> (\<forall>calls. model_type (add_calls demo_lib demo_qa calls) = ''seq2seq'')"
    using init_model_type [of "''seq2seq''" demo_lib "''demo''" 100] init_demo by blast
  then have later:
    "model_type (add_calls demo_lib demo_qa [([''Paris.''], False), ([''Rome''], True)]) = ''seq2seq''"
    by blast
  from rejected init_demo fixed later show ?thesis
    by (intro conjI) (assumption | erule conjunct1)+
qed

section \<open>Answering\<close>

lemma generate_text_fault_cases:
  "generate_text self p n = Inl e \<longleftrightarrow>
     tokenizer_call (tokenizer self) p = Inl e
     \<or> (\<exists>inputs. tokenizer_call (tokenizer self) p = Inr inputs
           \<and> (generate_ids self inputs n = Inl e
              \<or> (\<exists>outputs. generate_ids self inputs n = Inr outputs
                    \<and> decode (tokenizer self) outputs = Inl e)))"
  by (auto simp: generate_text_def split: sum.splits)

lemma demo_model_change_embedding:
  "get_embedding (demo_store\<lparr>model := demo_model\<lparr>generate := g\<rparr>\<rparr>) text
     = get_embedding demo_store text"
  by (simp add: get_embedding_def demo_store_def demo_qa_def demo_model_def split: sum.splits)

lemma demo_plain_answer: "plain_answer demo_store p n = p"
  by (simp add: plain_answer_def demo_generate_text)

lemma demo_store_context:
  "get_relevant_context demo_lib demo_store ''Who?'' = Inr ''Rome Paris. The Louvre.''"
  "get_relevant_context demo_lib demo_no_generation ''Who?'' = Inr ''Rome Paris. The Louvre.''"
proof -
  have emb: "get_embedding demo_store (Str ''Who?'') = Inr [4]"
    by (simp add: demo_store_embedding demo_embedding demo_embed_def)
  have emb': "get_embedding demo_no_generation (Str ''Who?'') = Inr [4]"
    by (simp add: demo_no_generation_def demo_model_change_embedding emb)
  have store: "rag_embeddings demo_store = Some [6, 11, 4, 15]"
      "rag_embeddings demo_no_generation = Some [6, 11, 4, 15]"
    by (simp_all add: demo_no_generation_def demo_store_def)
  show "get_relevant_context demo_lib demo_store ''Who?'' = Inr ''Rome Paris. The Louvre.''"
    by (simp add: get_relevant_context_def store emb cosine_similarity_def topk_def)
       (simp add: demo_lib_def demo_store_def demo_qa_def)
  show "get_relevant_context demo_lib demo_no_generation ''Who?'' = Inr ''Rome Paris. The Louvre.''"
    by (simp add: get_relevant_context_def store emb' cosine_similarity_def topk_def)
       (simp add: demo_lib_def demo_no_generation_def demo_store_def demo_qa_def)
qed

lemma demo_one_chunk_store:
  "add_rag_data demo_lib demo_qa [''Paris.''] False
     = (None, demo_qa\<lparr>rag_data := [''Paris.''], rag_embeddings := Some [6]\<rparr>)"
proof -
  have emb: "get_embedding (demo_qa\<lparr>rag_data := texts\<rparr>) (StrList [''Paris.'']) = Inr [6]" for texts
    by (simp add: get_embedding_store_independent demo_embedding demo_embed_def)
  show ?thesis
    by (simp add: add_rag_data_def split_document_single emb store_embeddings_def)
       (simp add: demo_qa_def)
qed

lemma demo_one_chunk_context:
  "get_relevant_context demo_lib
     (demo_qa\<lparr>rag_data := [''Paris.''], rag_embeddings := Some [6]\<rparr>) ''Who?''
   = Inl (RuntimeError ''selected index k out of range'')"
proof -
  have q: "get_embedding (demo_qa\<lparr>rag_data := [''Paris.''], rag_embeddings := Some [6]\<rparr>) (Str ''Who?'')
             = Inr [4]"
    by (simp add: get_embedding_store_independent demo_embedding demo_embed_def)
  show ?thesis
    by (simp add: get_relevant_context_def q cosine_similarity_def topk_def)
       (simp add: demo_qa_def)
qed

text \<open>
  Claim C7 (the answer path never raises). The claim fails on the code: both answer
  paths end in \<open>except Exception\<close> and return the message, but the call of
  \<open>get_relevant_context\<close> and, on the structured path, \<open>json.dumps\<close> stand before
  the \<open>try\<close>, and their faults are raised to the caller. Three calls of
  \<open>answer_question\<close> that raise: with \<open>use_rag\<close> on a store of one chunk, where
  \<open>topk\<close> raises for k = 3 and no collaborator faults at all; with \<open>use_rag\<close> and a
  question that the embedder cannot take; and with an output structure holding a class,
  which \<open>json.dumps\<close> refuses.
\<close>

theorem answer_question_raises:
  "fst (add_rag_data demo_lib demo_qa [''Paris.''] False) = None
   \<and> answer_question demo_lib (snd (add_rag_data demo_lib demo_qa [''Paris.''] False))
        ''Who?'' True 100 None
       = Inl (RuntimeError ''selected index k out of range'')
   \<and> answer_question demo_lib demo_store ''Who ate bread? And who drank all the wine?'' True 100 None
       = Inl (RuntimeError ''CUDA out of memory'')
   \<and> answer_question demo_lib demo_store ''Who?'' False 100 (Some [(''name'', PyOther ''str'')])
       = Inl (TypeError ''Object of type type is not JSON serializable'')"
proof -
  have emb: "get_embedding demo_store (Str ''Who ate bread? And who drank all the wine?'')
      = Inl (RuntimeError ''CUDA out of memory'')"
    by (simp add: demo_store_embedding demo_embedding demo_embed_def)
  have store: "rag_embeddings demo_store = Some [6, 11, 4, 15]"
    by (simp add: demo_store_def)
  have 0: "answer_question demo_lib (snd (add_rag_data demo_lib demo_qa [''Paris.''] False))
        ''Who?'' True 100 None
       = Inl (RuntimeError ''selected index k out of range'')"
    by (simp add: demo_one_chunk_store answer_question_def demo_one_chunk_context)
  have 1: "answer_question demo_lib demo_store ''Who ate bread? And who drank all the wine?'' True 100 None
     = Inl (RuntimeError ''CUDA out of memory'')"
    by (simp add: answer_question_def get_relevant_context_def store emb)
  have 2: "answer_question demo_lib demo_store ''Who?'' False 100 (Some [(''name'', PyOther ''str'')])
       = Inl (TypeError ''Object of type type is not JSON serializable'')"
    by (simp add: answer_question_def answer_prompt_def generate_structured_output_def demo_lib_def)
  from 0 1 2 show ?thesis by (simp add: demo_one_chunk_store)
qed

text \<open>
  What the \<open>try\<close> blocks do catch. For every prompt, when the context retrieval returns
  (or \<open>use_rag\<close> is false), every fault of tokenization, generation or decoding on the
  plain path is caught and \<open>answer_question\<close> returns the text \<open>An error occurred:\<close>
  with the message; with a non-empty output structure that \<open>json.dumps\<close> serialises it
  returns a structured value.
\<close>

theorem answer_question_catches_generation_faults:
  assumes retrieval: "use_rag \<longrightarrow> get_relevant_context lib self prompt = Inr context"
    and full: "full_prompt =
      (if use_rag
       then ''Context: '' @ context @ ''\<newline>\<newline>Question: '' @ prompt @ ''\<newline>\<newline>Answer:''
       else ''Question: '' @ prompt @ ''\<newline>\<newline>Answer:'')"
  shows
   "(output_structure = None \<or> output_structure = Some [] \<longrightarrow>
       (\<exists>t. answer_question lib self prompt use_rag max_length output_structure = Inr (Text t))
       \<and> (\<forall>e. tokenizer_call (tokenizer self) full_prompt = Inl e \<longrightarrow>
             answer_question lib self prompt use_rag max_length output_structure
               = Inr (Text (''An error occurred: '' @ str_of e)))
       \<and> (\<forall>inputs e. tokenizer_call (tokenizer self) full_prompt = Inr inputs
               \<and> generate_ids self inputs max_length = Inl e \<longrightarrow>
             answer_question lib self prompt use_rag max_length output_structure
               = Inr (Text (''An error occurred: '' @ str_of e)))
       \<and> (\<forall>e. generate_text self full_prompt max_length = Inl e \<longrightarrow>
             answer_question lib self prompt use_rag max_length output_structure
               = Inr (Text (''An error occurred: '' @ str_of e)))
       \<and> (\<forall>t. generate_text self full_prompt max_length = Inr t \<longrightarrow>
             answer_question lib self prompt use_rag max_length output_structure = Inr (Text t)))
    \<and> (\<forall>d s. output_structure = Some d \<and> d \<noteq> [] \<and> json_dumps lib d = Inr s \<longrightarrow>
          (\<exists>r. answer_question lib self prompt use_rag max_length output_structure
                  = Inr (Structured r)))"
proof -
  have reduce: "answer_question lib self prompt use_rag max_length output_structure
      = answer_prompt lib self full_prompt max_length output_structure"
    using retrieval full by (cases use_rag) (simp_all add: answer_question_def)
  have plain: "answer_question lib self prompt use_rag max_length output_structure
      = Inr (Text (plain_answer self full_prompt max_length))"
    if "output_structure = None \<or> output_structure = Some []"
    using that reduce by (auto simp: answer_prompt_def)
  have tok: "generate_text self full_prompt max_length = Inl e"
    if "tokenizer_call (tokenizer self) full_prompt = Inl e" for e
    using that by (simp add: generate_text_fault_cases)
  have gen: "generate_text self full_prompt max_length = Inl e"
    if "tokenizer_call (tokenizer self) full_prompt = Inr inputs"
      "generate_ids self inputs max_length = Inl e" for inputs e
    using that by (simp add: generate_text_fault_cases)
  have fault: "plain_answer self full_prompt max_length = ''An error occurred: '' @ str_of e"
    if "generate_text self full_prompt max_length = Inl e" for e
    using that by (simp add: plain_answer_def)
  have ok: "plain_answer self full_prompt max_length = t"
    if "generate_text self full_prompt max_length = Inr t" for t
    using that by (simp add: plain_answer_def)
  have structured: "\<exists>r. answer_question lib self prompt use_rag max_length output_structure
                  = Inr (Structured r)"
    if "output_structure = Some d" "d \<noteq> []" "json_dumps lib d = Inr s" for d s
    using that reduce
    by (auto simp: answer_prompt_def generate_structured_output_def Let_def
        split: sum.splits error.splits)
  show ?thesis
  proof (intro conjI impI allI)
    assume p: "output_structure = None \<or> output_structure = Some []"
    show "\<exists>t. answer_question lib self prompt use_rag max_length output_structure = Inr (Text t)"
      using plain [OF p] by (rule exI)
    show "answer_question lib self prompt use_rag max_length output_structure
               = Inr (Text (''An error occurred: '' @ str_of e))"
      if "tokenizer_call (tokenizer self) full_prompt = Inl e" for e
      using plain [OF p] fault [OF tok [OF that]] by (simp only:)
    show "answer_question lib self prompt use_rag max_length output_structure
               = Inr (Text (''An error occurred: '' @ str_of e))"
      if "tokenizer_call (tokenizer self) full_prompt = Inr inputs
               \<and> generate_ids self inputs max_length = Inl e" for inputs e
      using plain [OF p] fault [OF gen [OF conjunct1 [OF that] conjunct2 [OF that]]]
      by (simp only:)
    show "answer_question lib self prompt use_rag max_length output_structure
               = Inr (Text (''An error occurred: '' @ str_of e))"
      if "generate_text self full_prompt max_length = Inl e" for e
      using plain [OF p] fault [OF that] by (simp only:)
    show "answer_question lib self prompt use_rag max_length output_structure = Inr (Text t)"
      if "generate_text self full_prompt max_length = Inr t" for t
      using plain [OF p] ok [OF that] by (simp only:)
  next
    fix d s
    assume "output_structure = Some d \<and> d \<noteq> [] \<and> json_dumps lib d = Inr s"
    then show "\<exists>r. answer_question lib self prompt use_rag max_length output_structure
                  = Inr (Structured r)"
      using structured by blast
  qed
qed

theorem answer_question_catches_generation_faults_witness:
  "get_relevant_context demo_lib demo_no_generation ''Who?'' = Inr ''Rome Paris. The Louvre.''
   \<and> generate_text demo_no_generation
        ''Context: Rome Paris. The Louvre.\<newline>\<newline>Question: Who?\<newline>\<newline>Answer:'' 100
       = Inl (RuntimeError ''CUDA out of memory'')
   \<and> answer_question demo_lib demo_no_generation ''Who?'' True 100 None
       = Inr (Text ''An error occurred: CUDA out of memory'')
   \<and> (\<exists>r. answer_question demo_lib demo_no_generation ''Who?'' True 100
              (Some [(''name'', PyStr ''string'')]) = Inr (Structured r))"
proof -
  let ?p = "''Context: Rome Paris. The Louvre.\<newline>\<newline>Question: Who?\<newline>\<newline>Answer:''"
  have retrieval: "True \<longrightarrow> get_relevant_context demo_lib demo_no_generation ''Who?''
      = Inr ''Rome Paris. The Louvre.''"
    by (simp add: demo_store_context)
  have full: "?p = (if True then ''Context: '' @ ''Rome Paris. The Louvre.'' @ ''\<newline>\<newline>Question: '' @ ''Who?''
                       @ ''\<newline>\<newline>Answer:''
                    else ''Question: '' @ ''Who?'' @ ''\<newline>\<newline>Answer:'')"
    by simp
  have fault: "generate_text demo_no_generation ?p 100 = Inl (RuntimeError ''CUDA out of memory'')"
    by (rule demo_generate_text)
  have dumps: "json_dumps demo_lib [(''name'', PyStr ''string'')] = Inr ''{}''"
    by (simp add: demo_lib_def)
  have 1: "answer_question demo_lib demo_no_generation ''Who?'' True 100 None
       = Inr (Text (''An error occurred: '' @ str_of (RuntimeError ''CUDA out of memory'')))"
    using answer_question_catches_generation_faults [OF retrieval full, where max_length = 100 and output_structure = None] fault
    by blast
  have 2: "\<exists>r. answer_question demo_lib demo_no_generation ''Who?'' True 100
              (Some [(''name'', PyStr ''string'')]) = Inr (Structured r)"
    using answer_question_catches_generation_faults [OF retrieval full, where max_length = 100
        and output_structure = "Some [(''name'', PyStr ''string'')]"] dumps
    by blast
  from demo_store_context(2) fault 1 2 show ?thesis by simp
qed

text \<open>
  Claim C8 (structured output). For every prompt and output structure, once the
  structure is serialised into the prompt: when the decoded generation output makes
  \<open>json.loads\<close> raise \<open>JSONDecodeError\<close>, \<open>generate_structured_output\<close> returns the
  record of \<open>error\<close> "Failed to generate valid JSON structure" and \<open>raw_response\<close>, the
  decoded text; when \<open>json.loads\<close> returns, it returns the parsed value as it is; and any
  other fault (of tokenization, generation, decoding or parsing) gives the record of
  \<open>error\<close> "An error occurred: " with the message.
\<close>

theorem generate_structured_output_cases:
  assumes dumps: "json_dumps lib output_structure = Inr structure_prompt"
    and full: "full_prompt = prompt @ ''\<newline>\<newline>Generate a response in the following JSON structure:\<newline>''
                 @ structure_prompt @ ''\<newline>Response:''"
  shows
   "(\<forall>response m.
        generate_text self full_prompt max_length = Inr response
        \<and> json_loads lib response = Inl (JSONDecodeError m) \<longrightarrow>
        generate_structured_output lib self prompt output_structure max_length
          = Inr (PyDict [(''error'', PyStr ''Failed to generate valid JSON structure''),
                         (''raw_response'', PyStr response)]))
    \<and> (\<forall>response parsed.
        generate_text self full_prompt max_length = Inr response
        \<and> json_loads lib response = Inr parsed \<longrightarrow>
        generate_structured_output lib self prompt output_structure max_length = Inr parsed)
    \<and> (\<forall>e. tokenizer_call (tokenizer self) full_prompt = Inl e \<longrightarrow>
        generate_structured_output lib self prompt output_structure max_length
          = Inr (PyDict [(''error'', PyStr (''An error occurred: '' @ str_of e))]))
    \<and> (\<forall>inputs e.
        tokenizer_call (tokenizer self) full_prompt = Inr inputs
        \<and> generate_ids self inputs max_length = Inl e \<longrightarrow>
        generate_structured_output lib self prompt output_structure max_length
          = Inr (PyDict [(''error'', PyStr (''An error occurred: '' @ str_of e))]))
    \<and> (\<forall>e. generate_text self full_prompt max_length = Inl e \<longrightarrow>
        generate_structured_output lib self prompt output_structure max_length
          = Inr (PyDict [(''error'', PyStr (''An error occurred: '' @ str_of e))]))
    \<and> (\<forall>response e.
        generate_text self full_prompt max_length = Inr response
        \<and> json_loads lib response = Inl e \<and> (\<forall>m. e \<noteq> JSONDecodeError m) \<longrightarrow>
        generate_structured_output lib self prompt output_structure max_length
          = Inr (PyDict [(''error'', PyStr (''An error occurred: '' @ str_of e))]))"
proof -
  have fault: "generate_structured_output lib self prompt output_structure max_length
          = Inr (PyDict [(''error'', PyStr (''An error occurred: '' @ str_of e))])"
    if "generate_text self full_prompt max_length = Inl e" for e
    using that dumps full by (simp add: generate_structured_output_def)
  have tok: "generate_text self full_prompt max_length = Inl e"
    if "tokenizer_call (tokenizer self) full_prompt = Inl e" for e
    using that by (simp add: generate_text_fault_cases)
  have gen: "generate_text self full_prompt max_length = Inl e"
    if "tokenizer_call (tokenizer self) full_prompt = Inr inputs"
      "generate_ids self inputs max_length = Inl e" for inputs e
    using that by (simp add: generate_text_fault_cases)
  have bad: "generate_structured_output lib self prompt output_structure max_length
          = Inr (PyDict [(''error'', PyStr ''Failed to generate valid JSON structure''),
                         (''raw_response'', PyStr response)])"
    if "generate_text self full_prompt max_length = Inr response"
      "json_loads lib response = Inl (JSONDecodeError m)" for response m
    using that dumps full by (simp add: generate_structured_output_def)
  have good: "generate_structured_output lib self prompt output_structure max_length = Inr parsed"
    if "generate_text self full_prompt max_length = Inr response"
      "json_loads lib response = Inr parsed" for response parsed
    using that dumps full by (simp add: generate_structured_output_def)
  have other: "generate_structured_output lib self prompt output_structure max_length
          = Inr (PyDict [(''error'', PyStr (''An error occurred: '' @ str_of e))])"
    if "generate_text self full_prompt max_length = Inr response"
      "json_loads lib response = Inl e" "\<forall>m. e \<noteq> JSONDecodeError m" for response e
    using that dumps full by (cases e) (simp_all add: generate_structured_output_def)
  show ?thesis
    using fault tok gen bad good other by blast
qed

theorem generate_structured_output_cases_witness:
  "json_dumps demo_lib [(''name'', PyStr ''string'')] = Inr ''{}''
   \<and> generate_structured_output demo_lib demo_store ''Who?'' [(''name'', PyStr ''string'')] 200
       = Inr (PyDict [(''error'', PyStr ''Failed to generate valid JSON structure''),
                      (''raw_response'', PyStr
            ''Who?\<newline>\<newline>Generate a response in the following JSON structure:\<newline>{}\<newline>Response:'')])
   \<and> generate_structured_output demo_lib demo_json ''Who?'' [(''name'', PyStr ''string'')] 200
       = Inr (PyDict [])
   \<and> generate_structured_output demo_lib demo_no_generation ''Who?'' [(''name'', PyStr ''string'')] 200
       = Inr (PyDict [(''error'', PyStr ''An error occurred: CUDA out of memory'')])"
proof -
  let ?p = "''Who?\<newline>\<newline>Generate a response in the following JSON structure:\<newline>{}\<newline>Response:''"
  have dumps: "json_dumps demo_lib [(''name'', PyStr ''string'')] = Inr ''{}''"
    by (simp add: demo_lib_def)
  have full: "?p = ''Who?'' @ ''\<newline>\<newline>Generate a response in the following JSON structure:\<newline>''
                 @ ''{}'' @ ''\<newline>Response:''"
    by simp
  have loads: "json_loads demo_lib ?p = Inl (JSONDecodeError ''Expecting value'')"
      "json_loads demo_lib ''{}'' = Inr (PyDict [])"
    by (simp_all add: demo_lib_def)
  have 1: "generate_structured_output demo_lib demo_store ''Who?'' [(''name'', PyStr ''string'')] 200
       = Inr (PyDict [(''error'', PyStr ''Failed to generate valid JSON structure''),
                      (''raw_response'', PyStr ?p)])"
    using generate_structured_output_cases [OF dumps full, of demo_store 200] demo_generate_text(1) [of ?p 200] loads(1)
    by blast
  have 2: "generate_structured_output demo_lib demo_json ''Who?'' [(''name'', PyStr ''string'')] 200
       = Inr (PyDict [])"
    using generate_structured_output_cases [OF dumps full, of demo_json 200] demo_generate_text(2) [of ?p 200] loads(2)
    by blast
  have 3: "generate_structured_output demo_lib demo_no_generation ''Who?'' [(''name'', PyStr ''string'')] 200
       = Inr (PyDict [(''error'', PyStr (''An error occurred: '' @ str_of (RuntimeError ''CUDA out of memory'')))])"
    using generate_structured_output_cases [OF dumps full, of demo_no_generation 200] demo_generate_text(3) [of ?p 200]
    by blast
  from dumps 1 2 3 show ?thesis by simp
qed

text \<open>
  Claim C10 (empty output structure). For every prompt, \<open>answer_question\<close> with the
  empty dict as \<open>output_structure\<close> returns what it returns with \<open>None\<close>: the
  structured path is not taken, and the result is the text of the plain path, on the
  prompt without context when \<open>use_rag\<close> is false and on the prompt with the context
  whenever the retrieval returns one.
\<close>

theorem answer_question_empty_structure:
  "answer_question lib self prompt use_rag max_length (Some [])
     = answer_question lib self prompt use_rag max_length None
   \<and> answer_question lib self prompt False max_length (Some [])
       = Inr (Text (plain_answer self (''Question: '' @ prompt @ ''\<newline>\<newline>Answer:'') max_length))
   \<and> (\<forall>context. get_relevant_context lib self prompt = Inr context \<longrightarrow>
         answer_question lib self prompt True max_length (Some [])
           = Inr (Text (plain_answer self
               (''Context: '' @ context @ ''\<newline>\<newline>Question: '' @ prompt @ ''\<newline>\<newline>Answer:'')
               max_length)))"
  by (simp add: answer_question_def answer_prompt_def split: sum.splits)

theorem answer_question_empty_structure_witness:
  "get_relevant_context demo_lib demo_store ''Who?'' = Inr ''Rome Paris. The Louvre.''
   \<and> answer_question demo_lib demo_store ''Who?'' True 100 (Some [])
       = Inr (Text ''Context: Rome Paris. The Louvre.\<newline>\<newline>Question: Who?\<newline>\<newline>Answer:'')
   \<and> answer_question demo_lib demo_store ''Who?'' True 100 None
       = Inr (Text ''Context: Rome Paris. The Louvre.\<newline>\<newline>Question: Who?\<newline>\<newline>Answer:'')
   \<and> answer_question demo_lib demo_store ''Who?'' False 100 (Some [])
       = Inr (Text ''Question: Who?\<newline>\<newline>Answer:'')"
  using answer_question_empty_structure [of demo_lib demo_store "''Who?''" True 100]
    answer_question_empty_structure [of demo_lib demo_store "''Who?''" False 100] demo_store_context
  by (simp add: demo_plain_answer)

end
